theory Spec2Isabelle
  imports Main "HOL-Library.Char_ord"
begin

section \<open>Data model of the setup wizard (types/setup.ts)\<close>

text \<open>
  The TypeScript declarations of the wizard's data are embedded one to one. String-literal
  unions and enums become datatypes; interfaces become records; an optional field
  (\<^verbatim>\<open>details?: string\<close>) becomes an \<open>option\<close>. Several interfaces share the field names
  \<^verbatim>\<open>status\<close>, \<^verbatim>\<open>message\<close>, \<^verbatim>\<open>details\<close>, \<^verbatim>\<open>output\<close> and \<^verbatim>\<open>error\<close>; those fields carry a prefix here.
\<close>

datatype DNSBackendType = SAMBA_INTERNAL | BIND9_DLZ | NONE

datatype DomainFunctionLevel = LEVEL_2000 | LEVEL_2003 | LEVEL_2008 | LEVEL_2008_R2

record DomainConfig =
  realm :: string
  domain :: string
  domain_name :: string
  admin_password :: string
  dns_backend :: DNSBackendType
  dns_forwarder :: string
  server_role :: string
  host_ip :: "string option"
  function_level :: DomainFunctionLevel

datatype CheckStatus = Passed | Failed | Warning

record PrerequisiteCheck =
  check_name :: string
  check_status :: CheckStatus
  check_message :: string
  check_details :: "string option"

record PrerequisitesResponse =
  all_passed :: bool
  checks :: "PrerequisiteCheck list"

datatype ProvisionStatus = NOT_STARTED | IN_PROGRESS | COMPLETED | FAILED

record ProvisionResponse =
  prov_status :: ProvisionStatus
  prov_message :: string
  task_id :: "string option"
  prov_output :: "string option"
  prov_error :: "string option"

datatype TestCategory = Cat_dns | Cat_kerberos | Cat_ldap | Cat_services | Cat_auth | Cat_prerequisites

datatype TestStatus = T_passed | T_failed | T_skipped | T_running

record VerificationTest =
  test_name :: string
  category :: TestCategory
  test_status :: TestStatus
  test_message :: string
  test_details :: "string option"
  duration_ms :: "nat option"

datatype OverallStatus = O_passed | O_failed | O_partial

record VerificationResponse =
  overall_status :: OverallStatus
  total_tests :: nat
  passed :: nat
  failed :: nat
  skipped :: nat
  tests :: "VerificationTest list"
  summary :: string

record SetupStatusResponse =
  is_provisioned :: bool
  domain_info :: "(string \<rightharpoonup> string) option"
  last_provision_date :: "string option"

text \<open>
  \<^verbatim>\<open>enum SetupStep { WELCOME = 0, ..., COMPLETE = 7 }\<close> is a numeric enum: at run time the
  step is a JavaScript number, which \<^verbatim>\<open>currentStep.value++\<close> increments. It is an \<open>int\<close> here.
\<close>

type_synonym SetupStep = int

definition WELCOME :: SetupStep where "WELCOME = 0"
definition PREREQUISITES :: SetupStep where "PREREQUISITES = 1"
definition DOMAIN_CONFIG :: SetupStep where "DOMAIN_CONFIG = 2"
definition DNS_CONFIG :: SetupStep where "DNS_CONFIG = 3"
definition REVIEW :: SetupStep where "REVIEW = 4"
definition PROVISION :: SetupStep where "PROVISION = 5"
definition VERIFICATION :: SetupStep where "VERIFICATION = 6"
definition COMPLETE :: SetupStep where "COMPLETE = 7"

section \<open>The backend as seen by the client (api/setup.ts)\<close>

text \<open>
  Every function of \<^verbatim>\<open>setupApi\<close> is one HTTP request whose promise either resolves to the
  response body or rejects. The outcome of a request is a parameter of the model, of type
  \<open>exn + 'a\<close> (\<open>Inl\<close> the thrown value). A thrown value is either an \<^verbatim>\<open>Error\<close> object
  with its message, or anything else (JavaScript can throw any value).
  The requests issued so far are recorded, in order, in the ghost field \<open>requests\<close> of the
  store, with the request body where there is one.
\<close>

datatype exn = Error string | Thrown

datatype api_call =
    GetStatus
  | CheckPrerequisites
  | ValidateConfig DomainConfig
  | ProvisionDomain DomainConfig
  | VerifyInstallation DomainConfig
  | GetDomainInfo
  | ResetDomain

section \<open>The store (stores/setup.ts)\<close>

record SetupStore =
  currentStep :: SetupStep
  setupStatus :: "SetupStatusResponse option"
  prerequisites :: "PrerequisitesResponse option"
  verificationResults :: "VerificationResponse option"
  provisionResponse :: "ProvisionResponse option"
  loading :: bool
  error :: "string option"
  domainConfig :: DomainConfig
  requests :: "api_call list"

definition initial_domainConfig :: DomainConfig where
  "initial_domainConfig =
     \<lparr> realm = ''EXAMPLE.COM'', domain = ''EXAMPLE'', domain_name = ''example.com'',
       admin_password = '''', dns_backend = SAMBA_INTERNAL, dns_forwarder = ''8.8.8.8'',
       server_role = ''dc'', host_ip = None, function_level = LEVEL_2008 \<rparr>"

definition initial_store :: SetupStore where
  "initial_store =
     \<lparr> currentStep = 0, setupStatus = None, prerequisites = None, verificationResults = None,
       provisionResponse = None, loading = False, error = None,
       domainConfig = initial_domainConfig, requests = [] \<rparr>"

text \<open>\<^verbatim>\<open>setupStatus.value?.is_provisioned ?? false\<close>\<close>

definition isProvisioned :: "SetupStore \<Rightarrow> bool" where
  "isProvisioned s = (case setupStatus s of None \<Rightarrow> False | Some r \<Rightarrow> is_provisioned r)"

text \<open>\<^verbatim>\<open>if (currentStep.value === 1) return prerequisites.value?.all_passed ?? false; return true\<close>\<close>

definition canProceed :: "SetupStore \<Rightarrow> bool" where
  "canProceed s =
     (if currentStep s = 1
      then (case prerequisites s of None \<Rightarrow> False | Some p \<Rightarrow> all_passed p)
      else True)"

text \<open>\<^verbatim>\<open>e instanceof Error ? e.message : fallback\<close>\<close>

definition error_message :: "exn \<Rightarrow> string \<Rightarrow> string" where
  "error_message e fallback = (case e of Error m \<Rightarrow> m | Thrown \<Rightarrow> fallback)"

text \<open>
  Each asynchronous action sets \<^verbatim>\<open>loading\<close>, clears \<^verbatim>\<open>error\<close>, awaits one request inside
  \<^verbatim>\<open>try\<close>, records the message and re-throws in \<^verbatim>\<open>catch\<close>, and clears \<^verbatim>\<open>loading\<close> in
  \<^verbatim>\<open>finally\<close>. The model returns the action's completion (\<open>Inl\<close> the re-thrown value,
  \<open>Inr\<close> the returned one) with the store afterwards.
\<close>

definition begin_action :: "api_call \<Rightarrow> SetupStore \<Rightarrow> SetupStore" where
  "begin_action c s = s\<lparr> loading := True, error := None, requests := requests s @ [c] \<rparr>"

definition fail_action :: "exn \<Rightarrow> string \<Rightarrow> SetupStore \<Rightarrow> SetupStore" where
  "fail_action e fallback s = s\<lparr> error := Some (error_message e fallback), loading := False \<rparr>"

definition checkStatus :: "exn + SetupStatusResponse \<Rightarrow> SetupStore \<Rightarrow> (exn + unit) \<times> SetupStore" where
  "checkStatus api s =
     (let s1 = begin_action GetStatus s in
      case api of
        Inr r \<Rightarrow> (Inr (), s1\<lparr> setupStatus := Some r, loading := False \<rparr>)
      | Inl e \<Rightarrow> (Inl e, fail_action e ''Failed to check status'' s1))"

definition checkPrerequisites ::
  "exn + PrerequisitesResponse \<Rightarrow> SetupStore \<Rightarrow> (exn + unit) \<times> SetupStore" where
  "checkPrerequisites api s =
     (let s1 = begin_action CheckPrerequisites s in
      case api of
        Inr r \<Rightarrow> (Inr (), s1\<lparr> prerequisites := Some r, loading := False \<rparr>)
      | Inl e \<Rightarrow> (Inl e, fail_action e ''Failed to check prerequisites'' s1))"

definition validateConfiguration :: "exn + 'r \<Rightarrow> SetupStore \<Rightarrow> (exn + 'r) \<times> SetupStore" where
  "validateConfiguration api s =
     (let s1 = begin_action (ValidateConfig (domainConfig s)) s in
      case api of
        Inr r \<Rightarrow> (Inr r, s1\<lparr> loading := False \<rparr>)
      | Inl e \<Rightarrow> (Inl e, fail_action e ''Configuration validation failed'' s1))"

definition provisionDomain ::
  "exn + ProvisionResponse \<Rightarrow> SetupStore \<Rightarrow> (exn + ProvisionResponse) \<times> SetupStore" where
  "provisionDomain api s =
     (let s1 = begin_action (ProvisionDomain (domainConfig s)) s in
      case api of
        Inr r \<Rightarrow> (Inr r, s1\<lparr> provisionResponse := Some r, loading := False \<rparr>)
      | Inl e \<Rightarrow> (Inl e, fail_action e ''Domain provisioning failed'' s1))"

definition runVerificationTests ::
  "exn + VerificationResponse \<Rightarrow> SetupStore \<Rightarrow> (exn + VerificationResponse) \<times> SetupStore" where
  "runVerificationTests api s =
     (let s1 = begin_action (VerifyInstallation (domainConfig s)) s in
      case api of
        Inr r \<Rightarrow> (Inr r, s1\<lparr> verificationResults := Some r, loading := False \<rparr>)
      | Inl e \<Rightarrow> (Inl e, fail_action e ''Verification tests failed'' s1))"

definition nextStep :: "SetupStore \<Rightarrow> SetupStore" where
  "nextStep s = (if currentStep s < 7 then s\<lparr> currentStep := currentStep s + 1 \<rparr> else s)"

definition previousStep :: "SetupStore \<Rightarrow> SetupStore" where
  "previousStep s = (if currentStep s > 0 then s\<lparr> currentStep := currentStep s - 1 \<rparr> else s)"

definition goToStep :: "SetupStep \<Rightarrow> SetupStore \<Rightarrow> SetupStore" where
  "goToStep step s = s\<lparr> currentStep := step \<rparr>"

definition resetWizard :: "SetupStore \<Rightarrow> SetupStore" where
  "resetWizard s =
     s\<lparr> currentStep := 0, prerequisites := None, verificationResults := None,
        provisionResponse := None, error := None \<rparr>"

text \<open>
  \<^verbatim>\<open>resetDomain\<close> awaits the reset request, then the store's own \<^verbatim>\<open>checkStatus\<close> (a second
  request, with its own try/catch/finally), then calls \<^verbatim>\<open>resetWizard\<close>. A throw of either
  await lands in the one \<^verbatim>\<open>catch\<close>.
\<close>

definition resetDomain ::
  "exn + 'r \<Rightarrow> exn + SetupStatusResponse \<Rightarrow> SetupStore \<Rightarrow> (exn + 'r) \<times> SetupStore" where
  "resetDomain api_reset api_status s =
     (let s1 = begin_action ResetDomain s in
      case api_reset of
        Inl e \<Rightarrow> (Inl e, fail_action e ''Domain reset failed'' s1)
      | Inr result \<Rightarrow>
          (case checkStatus api_status s1 of
             (Inl e, s2) \<Rightarrow> (Inl e, fail_action e ''Domain reset failed'' s2)
           | (Inr u, s2) \<Rightarrow> (Inr result, (resetWizard s2)\<lparr> loading := False \<rparr>)))"

definition skipToVerification :: "SetupStore \<Rightarrow> SetupStore" where
  "skipToVerification s = s\<lparr> currentStep := 6 \<rparr>"

section \<open>JavaScript string operations used by the components\<close>

text \<open>
  \<^verbatim>\<open>toUpperCase\<close> and \<^verbatim>\<open>toLowerCase\<close> are modelled on the ASCII letters; every other
  character is left as it is. Both keep the length of an ASCII string.
  A string is truthy iff it is not empty; a missing property (\<^verbatim>\<open>undefined\<close>) is falsy.
\<close>

definition lower_letters :: string where
  "lower_letters = ''abcdefghijklmnopqrstuvwxyz''"

definition upper_letters :: string where
  "upper_letters = ''ABCDEFGHIJKLMNOPQRSTUVWXYZ''"

definition toUpperCase :: "string \<Rightarrow> string" where
  "toUpperCase =
     map (\<lambda>c. case map_of (zip lower_letters upper_letters) c of Some u \<Rightarrow> u | None \<Rightarrow> c)"

definition toLowerCase :: "string \<Rightarrow> string" where
  "toLowerCase =
     map (\<lambda>c. case map_of (zip upper_letters lower_letters) c of Some l \<Rightarrow> l | None \<Rightarrow> c)"

definition truthy :: "string option \<Rightarrow> bool" where
  "truthy v = (case v of None \<Rightarrow> False | Some x \<Rightarrow> x \<noteq> [])"

text \<open>\<^verbatim>\<open>s.split(d)\<close> for a one-character separator: always at least one part.\<close>

fun split_on :: "char \<Rightarrow> string \<Rightarrow> string list" where
  "split_on d [] = [[]]"
| "split_on d (c # cs) =
     (if c = d then [] # split_on d cs
      else (case split_on d cs of [] \<Rightarrow> [[c]] | p # ps \<Rightarrow> (c # p) # ps))"

section \<open>PrerequisitesStep.vue\<close>

text \<open>
  The component holds the flag \<^verbatim>\<open>checking\<close>. \<^verbatim>\<open>runChecks\<close> awaits the store's
  \<^verbatim>\<open>checkPrerequisites\<close> and swallows its exception. The Continue button carries
  \<^verbatim>\<open>:disabled="!setupStore.canProceed || checking"\<close> and \<^verbatim>\<open>@click="setupStore.nextStep()"\<close>;
  a disabled button delivers no click.
\<close>

definition runChecks :: "exn + PrerequisitesResponse \<Rightarrow> bool \<times> SetupStore \<Rightarrow> bool \<times> SetupStore" where
  "runChecks api vs = (False, snd (checkPrerequisites api (snd vs)))"

definition continue_disabled :: "bool \<times> SetupStore \<Rightarrow> bool" where
  "continue_disabled vs = (\<not> canProceed (snd vs) \<or> fst vs)"

definition continue_click :: "bool \<times> SetupStore \<Rightarrow> bool \<times> SetupStore" where
  "continue_click vs = (if continue_disabled vs then vs else (fst vs, nextStep (snd vs)))"

text \<open>\<^verbatim>\<open>onMounted\<close>: \<^verbatim>\<open>if (!setupStore.prerequisites) await runChecks()\<close>\<close>

definition PrerequisitesStep_onMounted ::
  "exn + PrerequisitesResponse \<Rightarrow> bool \<times> SetupStore \<Rightarrow> bool \<times> SetupStore" where
  "PrerequisitesStep_onMounted api vs =
     (if prerequisites (snd vs) = None then runChecks api vs else vs)"

section \<open>DomainConfigStep.vue\<close>

text \<open>
  \<^verbatim>\<open>config\<close> is the store's reactive \<^verbatim>\<open>domainConfig\<close> object; the form fields write into it
  through \<^verbatim>\<open>v-model\<close>. \<^verbatim>\<open>confirmPassword\<close> is local to the component.
\<close>

definition passwordsMatch :: "DomainConfig \<Rightarrow> string \<Rightarrow> bool" where
  "passwordsMatch config confirmPassword = (admin_password config = confirmPassword)"

definition isValid :: "DomainConfig \<Rightarrow> string \<Rightarrow> bool" where
  "isValid config confirmPassword =
     (length (realm config) > 0 \<and>
      length (domain config) > 0 \<and>
      length (domain_name config) > 0 \<and>
      length (admin_password config) \<ge> 8 \<and>
      passwordsMatch config confirmPassword)"

text \<open>
  \<^verbatim>\<open>autofillFromDomain\<close> runs when the DNS-domain-name field loses focus:
  \<^verbatim>\<open>config.realm = config.domain_name.toUpperCase()\<close> and
  \<^verbatim>\<open>config.domain = (parts[0] || config.domain_name).toUpperCase()\<close>.
\<close>

definition autofillFromDomain :: "DomainConfig \<Rightarrow> DomainConfig" where
  "autofillFromDomain config =
     (if domain_name config \<noteq> [] then
        (let config1 = config\<lparr> realm := toUpperCase (domain_name config) \<rparr>;
             parts = split_on CHR ''.'' (domain_name config1);
             parts0 = (case parts of [] \<Rightarrow> None | p # ps \<Rightarrow> Some p)
         in config1\<lparr> domain :=
              toUpperCase (if truthy parts0 then the parts0 else domain_name config1) \<rparr>)
      else config)"

section \<open>ProvisionStep.vue\<close>

text \<open>
  Local state of the component. \<open>pending_advance\<close> counts the two-second timers that
  \<^verbatim>\<open>startProvisioning\<close> has scheduled and that have not fired yet; a firing timer calls the
  store's \<^verbatim>\<open>nextStep\<close>.
\<close>

record ProvisionView =
  provisioning :: bool
  provisionStatus :: string
  provisionOutput :: "string list"
  pending_advance :: nat

definition startProvisioning ::
  "exn + ProvisionResponse \<Rightarrow> ProvisionView \<times> SetupStore \<Rightarrow> ProvisionView \<times> SetupStore" where
  "startProvisioning api vs =
     (let v1 = (fst vs)\<lparr> provisioning := True, provisionStatus := ''Starting domain provision...'' \<rparr>
      in case provisionDomain api (snd vs) of
        (Inr response, s1) \<Rightarrow>
          (if prov_status response = COMPLETED then
             (v1\<lparr> provisionStatus := ''Provision completed successfully!'',
                  provisionOutput :=
                    (if truthy (prov_output response)
                     then split_on (CHR 0x0A) (the (prov_output response))
                     else provisionOutput v1),
                  pending_advance := pending_advance v1 + 1,
                  provisioning := False \<rparr>, s1)
           else if prov_status response = FAILED then
             (v1\<lparr> provisionStatus := ''Provision failed'',
                  provisionOutput :=
                    (if truthy (prov_error response)
                     then split_on (CHR 0x0A) (the (prov_error response))
                     else provisionOutput v1),
                  provisioning := False \<rparr>, s1)
           else (v1\<lparr> provisioning := False \<rparr>, s1))
      | (Inl e, s1) \<Rightarrow>
          (v1\<lparr> provisionStatus := ''Error during provisioning'',
               provisionOutput := [error_message e ''Unknown error''],
               provisioning := False \<rparr>, s1))"

definition ProvisionStep_onMounted ::
  "exn + ProvisionResponse \<Rightarrow> ProvisionView \<times> SetupStore \<Rightarrow> ProvisionView \<times> SetupStore" where
  "ProvisionStep_onMounted api vs =
     (if isProvisioned (snd vs)
      then ((fst vs)\<lparr> provisionStatus := ''Domain already exists'' \<rparr>, snd vs)
      else startProvisioning api vs)"

text \<open>
  The Retry button is rendered under \<^verbatim>\<open>v-if="!provisioning"\<close> and
  \<^verbatim>\<open>v-if="setupStore.provisionResponse?.status === ProvisionStatus.FAILED"\<close>; its click
  handler is \<^verbatim>\<open>startProvisioning\<close>.
\<close>

definition retry_visible :: "ProvisionView \<times> SetupStore \<Rightarrow> bool" where
  "retry_visible vs =
     (\<not> provisioning (fst vs) \<and>
      (case provisionResponse (snd vs) of None \<Rightarrow> False | Some r \<Rightarrow> prov_status r = FAILED))"

definition retry_click ::
  "exn + ProvisionResponse \<Rightarrow> ProvisionView \<times> SetupStore \<Rightarrow> ProvisionView \<times> SetupStore" where
  "retry_click api vs = (if retry_visible vs then startProvisioning api vs else vs)"

text \<open>
  The button Continue to Verification is rendered under \<^verbatim>\<open>v-if="!provisioning"\<close> and
  \<^verbatim>\<open>v-if="setupStore.provisionResponse?.status === ProvisionStatus.COMPLETED"\<close>; its click
  calls the store's \<^verbatim>\<open>nextStep\<close>.
\<close>

definition continue_to_verification_visible :: "ProvisionView \<times> SetupStore \<Rightarrow> bool" where
  "continue_to_verification_visible vs =
     (\<not> provisioning (fst vs) \<and>
      (case provisionResponse (snd vs) of None \<Rightarrow> False | Some r \<Rightarrow> prov_status r = COMPLETED))"

definition continue_to_verification_click ::
  "ProvisionView \<times> SetupStore \<Rightarrow> ProvisionView \<times> SetupStore" where
  "continue_to_verification_click vs =
     (if continue_to_verification_visible vs then (fst vs, nextStep (snd vs)) else vs)"

text \<open>
  \<^verbatim>\<open>setTimeout(() => { setupStore.nextStep() }, 2000)\<close>: the callback tests nothing, and
  the component never cancels the timer, so it fires whatever step the wizard shows by
  then and whether or not \<^verbatim>\<open>ProvisionStep\<close> is still mounted.
\<close>

definition advance_timer_fires :: "ProvisionView \<times> SetupStore \<Rightarrow> ProvisionView \<times> SetupStore" where
  "advance_timer_fires vs =
     (if pending_advance (fst vs) > 0
      then ((fst vs)\<lparr> pending_advance := pending_advance (fst vs) - 1 \<rparr>, nextStep (snd vs))
      else vs)"

section \<open>VerificationStep.vue\<close>

record VerificationView =
  running :: bool
  needsPassword :: bool
  adminPassword :: string
  passwordError :: string

text \<open>The test of \<^verbatim>\<open>needsFetch\<close>, repeated in \<^verbatim>\<open>runTests\<close>: the placeholder defaults.\<close>

definition placeholder_config :: "DomainConfig \<Rightarrow> bool" where
  "placeholder_config c = (domain_name c = ''example.com'' \<or> realm c = ''EXAMPLE.COM'')"

text \<open>The assignments made from the reply of \<^verbatim>\<open>getDomainInfo\<close>, in the source's order.\<close>

definition apply_domainInfo :: "(string \<rightharpoonup> string) \<Rightarrow> DomainConfig \<Rightarrow> DomainConfig" where
  "apply_domainInfo domainInfo c =
     (let c1 = (if truthy (domainInfo ''Forest'')
                then c\<lparr> realm := toUpperCase (the (domainInfo ''Forest'')),
                        domain_name := toLowerCase (the (domainInfo ''Forest'')) \<rparr>
                else c);
          c2 = (if truthy (domainInfo ''Domain'')
                then c1\<lparr> domain_name := toLowerCase (the (domainInfo ''Domain'')) \<rparr>
                else c1);
          c3 = (if truthy (domainInfo ''Netbios domain'')
                then c2\<lparr> domain := toUpperCase (the (domainInfo ''Netbios domain'')) \<rparr>
                else c2)
      in c3\<lparr> dns_backend := SAMBA_INTERNAL, server_role := ''dc'' \<rparr>)"

definition check_password :: "VerificationView \<times> SetupStore \<Rightarrow> VerificationView \<times> SetupStore" where
  "check_password vs =
     ((fst vs)\<lparr> needsPassword := (length (admin_password (domainConfig (snd vs))) < 8) \<rparr>, snd vs)"

definition checkAndPrepareConfig ::
  "exn + (string \<rightharpoonup> string) \<Rightarrow> VerificationView \<times> SetupStore \<Rightarrow> VerificationView \<times> SetupStore" where
  "checkAndPrepareConfig api_info vs =
     (if isProvisioned (snd vs) then
        (if placeholder_config (domainConfig (snd vs)) then
           (let s1 = (snd vs)\<lparr> requests := requests (snd vs) @ [GetDomainInfo] \<rparr> in
            case api_info of
              Inl e \<Rightarrow>
                ((fst vs)\<lparr> passwordError :=
                     ''Failed to load domain info: '' @ error_message e ''Unknown error'',
                   needsPassword := True \<rparr>, s1)
            | Inr domainInfo \<Rightarrow>
                check_password
                  (fst vs, s1\<lparr> domainConfig := apply_domainInfo domainInfo (domainConfig s1) \<rparr>))
         else check_password vs)
      else check_password vs)"

definition runTests ::
  "exn + (string \<rightharpoonup> string) \<Rightarrow> exn + VerificationResponse \<Rightarrow>
   VerificationView \<times> SetupStore \<Rightarrow> VerificationView \<times> SetupStore" where
  "runTests api_info api_verify vs =
     (let vs1 = checkAndPrepareConfig api_info vs in
      if length (admin_password (domainConfig (snd vs1))) < 8 then
        ((fst vs1)\<lparr> needsPassword := True,
           passwordError := ''Administrator password is required for verification tests'' \<rparr>,
         snd vs1)
      else if placeholder_config (domainConfig (snd vs1)) then
        ((fst vs1)\<lparr> passwordError :=
            ''Unable to load domain configuration. Please check if domain is provisioned.'' \<rparr>,
         snd vs1)
      else
        ((fst vs1)\<lparr> running := False \<rparr>, snd (runVerificationTests api_verify (snd vs1))))"

definition submitPassword ::
  "exn + (string \<rightharpoonup> string) \<Rightarrow> exn + VerificationResponse \<Rightarrow>
   VerificationView \<times> SetupStore \<Rightarrow> VerificationView \<times> SetupStore" where
  "submitPassword api_info api_verify vs =
     (let v1 = (fst vs)\<lparr> passwordError := [] \<rparr> in
      if length (adminPassword v1) < 8 then
        (v1\<lparr> passwordError := ''Password must be at least 8 characters'' \<rparr>, snd vs)
      else
        runTests api_info api_verify
          (v1\<lparr> needsPassword := False \<rparr>,
           (snd vs)\<lparr> domainConfig :=
              (domainConfig (snd vs))\<lparr> admin_password := adminPassword v1 \<rparr> \<rparr>))"

text \<open>
  \<^verbatim>\<open>onMounted\<close>: refresh the status (not inside a \<^verbatim>\<open>try\<close>: a throw ends the hook), prepare
  the configuration, and run the tests when there are no results yet and no password is
  needed. \<^verbatim>\<open>runTests\<close> prepares the configuration a second time, so the hook can issue the
  introspection request twice; each has its own outcome.
\<close>

definition VerificationStep_onMounted ::
  "exn + SetupStatusResponse \<Rightarrow> exn + (string \<rightharpoonup> string) \<Rightarrow> exn + (string \<rightharpoonup> string) \<Rightarrow>
   exn + VerificationResponse \<Rightarrow> VerificationView \<times> SetupStore \<Rightarrow> VerificationView \<times> SetupStore" where
  "VerificationStep_onMounted api_status api_info1 api_info2 api_verify vs =
     (case checkStatus api_status (snd vs) of
        (Inl e, s1) \<Rightarrow> (fst vs, s1)
      | (Inr u, s1) \<Rightarrow>
          (let vs2 = checkAndPrepareConfig api_info1 (fst vs, s1) in
           if verificationResults (snd vs2) = None \<and> \<not> needsPassword (fst vs2)
           then runTests api_info2 api_verify vs2
           else vs2))"

text \<open>
  The button group of the step is outside the \<^verbatim>\<open>v-if="needsPassword"\<close> chain. Run Tests
  Again and the Continue button (labelled Complete Setup or Continue Anyway) both carry
  \<^verbatim>\<open>:disabled="running"\<close> and nothing else; Continue calls the store's \<^verbatim>\<open>nextStep\<close>.
\<close>

definition runTests_click ::
  "exn + (string \<rightharpoonup> string) \<Rightarrow> exn + VerificationResponse \<Rightarrow>
   VerificationView \<times> SetupStore \<Rightarrow> VerificationView \<times> SetupStore" where
  "runTests_click api_info api_verify vs =
     (if running (fst vs) then vs else runTests api_info api_verify vs)"

definition VerificationStep_continue_click ::
  "VerificationView \<times> SetupStore \<Rightarrow> VerificationView \<times> SetupStore" where
  "VerificationStep_continue_click vs =
     (if running (fst vs) then vs else (fst vs, nextStep (snd vs)))"

section \<open>WelcomeStep.vue and CompleteStep.vue\<close>

text \<open>
  Get Started is \<^verbatim>\<open>@click="setupStore.nextStep()"\<close>; Run Setup Again is
  \<^verbatim>\<open>@click="setupStore.resetWizard()"\<close>. Neither button is ever disabled.
\<close>

definition getStarted_click :: "SetupStore \<Rightarrow> SetupStore" where
  "getStarted_click s = nextStep s"

definition runSetupAgain_click :: "SetupStore \<Rightarrow> SetupStore" where
  "runSetupAgain_click s = resetWizard s"

section \<open>Runs of navigation steps\<close>

text \<open>Any finite sequence of calls of \<^verbatim>\<open>nextStep\<close> and \<^verbatim>\<open>previousStep\<close>, first call first.\<close>

datatype nav = Next | Previous

fun navigate :: "nav list \<Rightarrow> SetupStore \<Rightarrow> SetupStore" where
  "navigate [] s = s"
| "navigate (Next # ns) s = navigate ns (nextStep s)"
| "navigate (Previous # ns) s = navigate ns (previousStep s)"

text \<open>The four cached results of the backend that the store keeps.\<close>

definition cached_results ::
  "SetupStore \<Rightarrow> SetupStatusResponse option \<times> PrerequisitesResponse option \<times>
     ProvisionResponse option \<times> VerificationResponse option" where
  "cached_results s = (setupStatus s, prerequisites s, provisionResponse s, verificationResults s)"

record ResetResponse =
  success :: bool
  reset_message :: string

section \<open>ExistingDomainModal.vue\<close>

text \<open>
  The modal offers two actions. \<^verbatim>\<open>handleSkip\<close> calls the store's \<^verbatim>\<open>skipToVerification\<close>;
  \<^verbatim>\<open>handleReset\<close> awaits the store's \<^verbatim>\<open>resetDomain\<close> and keeps the message of a failure in
  its local \<^verbatim>\<open>errorMessage\<close>, returned here with the store.
\<close>

definition handleSkip :: "SetupStore \<Rightarrow> SetupStore" where
  "handleSkip s = skipToVerification s"

definition handleReset ::
  "exn + ResetResponse \<Rightarrow> exn + SetupStatusResponse \<Rightarrow> SetupStore \<Rightarrow> string option \<times> SetupStore" where
  "handleReset api_reset api_status s =
     (case resetDomain api_reset api_status s of
        (Inl e, s1) \<Rightarrow> (Some (error_message e ''Failed to reset domain''), s1)
      | (Inr r, s1) \<Rightarrow> (None, s1))"

section \<open>What can happen while the Verification step is shown\<close>

text \<open>
  The events that reach the store and the component while \<^verbatim>\<open>VerificationStep\<close> is on
  screen: the \<^verbatim>\<open>onMounted\<close> hook, typing into the password field (\<^verbatim>\<open>v-model="adminPassword"\<close>), submitting the
  password form (\<^verbatim>\<open>@submit.prevent="submitPassword"\<close>), the buttons Run Tests Again and
  Continue, the firing of an auto-advance timer left by \<^verbatim>\<open>ProvisionStep\<close>, and the two
  actions of \<^verbatim>\<open>ExistingDomainModal\<close>. The timer and the modal are taken as always
  available, which only adds behaviours. The requests that ask the backend to verify are
  the \<open>VerifyInstallation\<close> entries of the request log.
\<close>

datatype VerificationStep_event =
    Mounted "exn + SetupStatusResponse" "exn + (string \<rightharpoonup> string)"
      "exn + (string \<rightharpoonup> string)" "exn + VerificationResponse"
  | Input_password string
  | Submit_password "exn + (string \<rightharpoonup> string)" "exn + VerificationResponse"
  | Click_runTests "exn + (string \<rightharpoonup> string)" "exn + VerificationResponse"
  | Click_Continue
  | Timer_fires
  | Modal_Skip
  | Modal_Reset "exn + ResetResponse" "exn + SetupStatusResponse"

fun VerificationStep_fire ::
  "VerificationStep_event \<Rightarrow> VerificationView \<times> SetupStore \<Rightarrow> VerificationView \<times> SetupStore" where
  "VerificationStep_fire (Mounted api_status api_info1 api_info2 api_verify) vs =
     VerificationStep_onMounted api_status api_info1 api_info2 api_verify vs"
| "VerificationStep_fire (Input_password p) vs = ((fst vs)\<lparr> adminPassword := p \<rparr>, snd vs)"
| "VerificationStep_fire (Submit_password api_info api_verify) vs =
     submitPassword api_info api_verify vs"
| "VerificationStep_fire (Click_runTests api_info api_verify) vs =
     runTests_click api_info api_verify vs"
| "VerificationStep_fire Click_Continue vs = VerificationStep_continue_click vs"
| "VerificationStep_fire Timer_fires vs = (fst vs, nextStep (snd vs))"
| "VerificationStep_fire Modal_Skip vs = (fst vs, handleSkip (snd vs))"
| "VerificationStep_fire (Modal_Reset api_reset api_status) vs =
     (fst vs, snd (handleReset api_reset api_status (snd vs)))"

fun VerificationStep_run ::
  "VerificationStep_event list \<Rightarrow> VerificationView \<times> SetupStore \<Rightarrow> VerificationView \<times> SetupStore" where
  "VerificationStep_run [] vs = vs"
| "VerificationStep_run (ev # evs) vs = VerificationStep_run evs (VerificationStep_fire ev vs)"

definition short_input :: "VerificationStep_event \<Rightarrow> bool" where
  "short_input ev = (case ev of Input_password p \<Rightarrow> length p < 8 | _ \<Rightarrow> True)"

definition is_verify :: "api_call \<Rightarrow> bool" where
  "is_verify c = (case c of VerifyInstallation cfg \<Rightarrow> True | _ \<Rightarrow> False)"

definition verify_calls :: "SetupStore \<Rightarrow> api_call list" where
  "verify_calls s = filter is_verify (requests s)"

section \<open>The verification engine of the backend\<close>

text \<open>
  Modelled from the spec: the verification engine (the backend's verification service) is
  not among the sources; the client sends one request and displays the reply. The
  specification says: each check is a pure function of the configuration and the optional
  password that yields \<open>(success, message, detail?)\<close>; the engine measures the elapsed
  time and converts an unhandled exception into a \<open>failed\<close> result. The checks run in the
  order prerequisites, DNS, service ports, directory protocol, ticket-based auth,
  credentialed auth, independently of each other, with one exception: the directory
  protocol starts with the anonymous bind, and if the bind fails the queries that depend
  on it are marked \<open>skipped\<close>, not \<open>failed\<close>. No other check is ever skipped (without a
  password the engine prompts rather than skips). The run is returned only once complete.

  A \<open>Check\<close> is a check of the battery together with what its function does on the given
  configuration and password: it raises (\<open>Inl\<close>) or returns (\<open>Inr\<close>).
\<close>

record Check =
  chk_name :: string
  chk_category :: TestCategory
  chk_result :: "exn + bool \<times> string \<times> string option"
  chk_elapsed :: nat

record Battery =
  prerequisite_checks :: "Check list"
  dns_checks :: "Check list"
  port_checks :: "Check list"
  ldap_bind :: Check
  ldap_queries :: "Check list"
  ticket_checks :: "Check list"
  credentialed_checks :: "Check list"

definition run_check :: "Check \<Rightarrow> VerificationTest" where
  "run_check c =
     (case chk_result c of
        Inl e \<Rightarrow>
          \<lparr> test_name = chk_name c, category = chk_category c, test_status = T_failed,
            test_message = error_message e ''Unexpected error'', test_details = None,
            duration_ms = Some (chk_elapsed c) \<rparr>
      | Inr (ok, msg, detail) \<Rightarrow>
          \<lparr> test_name = chk_name c, category = chk_category c,
            test_status = (if ok then T_passed else T_failed),
            test_message = msg, test_details = detail,
            duration_ms = Some (chk_elapsed c) \<rparr>)"

definition skip_check :: "Check \<Rightarrow> VerificationTest" where
  "skip_check c =
     \<lparr> test_name = chk_name c, category = chk_category c, test_status = T_skipped,
       test_message = ''Skipped: LDAP bind failed'', test_details = None, duration_ms = None \<rparr>"

definition run_ldap :: "Battery \<Rightarrow> VerificationTest list" where
  "run_ldap b =
     (let bind = run_check (ldap_bind b) in
      bind # (if test_status bind = T_passed
              then map run_check (ldap_queries b)
              else map skip_check (ldap_queries b)))"

definition run_battery :: "Battery \<Rightarrow> VerificationTest list" where
  "run_battery b =
     map run_check (prerequisite_checks b) @ map run_check (dns_checks b) @
     map run_check (port_checks b) @ run_ldap b @
     map run_check (ticket_checks b) @ map run_check (credentialed_checks b)"

text \<open>
  Modelled from the spec: the aggregation. A run is the ordered collection of its tests
  plus the derived counts, the verdict and a one-line summary; the verdict is \<open>passed\<close>
  iff failedCount = 0 and skippedCount = 0, \<open>partial\<close> iff passedCount > 0 and
  failedCount > 0, \<open>failed\<close> iff passedCount = 0. The three clauses are taken in the order
  in which they are written, the last one as the remaining case; wherever some verdict
  satisfies all three clauses, it is this one. The text of the summary is not specified;
  it is a parameter.
\<close>

definition count_status :: "TestStatus \<Rightarrow> VerificationTest list \<Rightarrow> nat" where
  "count_status st ts = length (filter (\<lambda>t. test_status t = st) ts)"

definition overallStatus_of :: "nat \<Rightarrow> nat \<Rightarrow> nat \<Rightarrow> OverallStatus" where
  "overallStatus_of p f k =
     (if f = 0 \<and> k = 0 then O_passed else if p > 0 \<and> f > 0 then O_partial else O_failed)"

definition aggregate :: "VerificationTest list \<Rightarrow> string \<Rightarrow> VerificationResponse" where
  "aggregate ts line =
     \<lparr> overall_status =
         overallStatus_of (count_status T_passed ts) (count_status T_failed ts)
           (count_status T_skipped ts),
       total_tests = length ts,
       passed = count_status T_passed ts,
       failed = count_status T_failed ts,
       skipped = count_status T_skipped ts,
       tests = ts,
       summary = line \<rparr>"

definition runVerification :: "Battery \<Rightarrow> string \<Rightarrow> VerificationResponse" where
  "runVerification b line = aggregate (run_battery b) line"

text \<open>The rule of the specification, as a property of a run.\<close>

definition counts_add_up :: "VerificationResponse \<Rightarrow> bool" where
  "counts_add_up r = (passed r + failed r + skipped r = total_tests r)"

definition verdict_rule :: "VerificationResponse \<Rightarrow> bool" where
  "verdict_rule r =
     ((overall_status r = O_passed) = (failed r = 0 \<and> skipped r = 0) \<and>
      (overall_status r = O_partial) = (passed r > 0 \<and> failed r > 0) \<and>
      (overall_status r = O_failed) = (passed r = 0))"

section \<open>The provisioning orchestrator of the backend\<close>

text \<open>
  Modelled from the spec: the provisioning orchestrator and the domain reset of the
  backend are not among the sources; the client sends one request for each and stores the
  reply. The specification says: \<open>provision\<close> converts the configuration into exactly one
  invocation of the provisioning tool; before invoking, it re-checks for an existing
  domain and refuses unless the wizard explicitly completed a reset; exit code 0 gives a
  job \<open>completed\<close>, any other a job \<open>failed\<close> with the captured stderr; there is no retry
  without an explicit reset; a session has at most one job, which a re-invocation
  replaces. \<open>resetDomain\<close> makes a backup, verifies it and then removes the live
  configuration, and aborts before the removal when the backup did not complete.

  The state of the engine: whether a domain exists on the host, whether \<open>provision\<close> has
  run since the session began or since the last completed reset, the session's job, and
  the log of the tool's invocations. The result of the tool (exit code, stdout, stderr)
  and the success of the two steps of a reset are parameters. The start of the service
  daemon after a successful provision is left out.
\<close>

datatype EngineError = PreconditionViolation

record ProvisionJob =
  job_status :: ProvisionStatus
  capturedOutput :: string
  capturedError :: string

record ToolResult =
  exitCode :: int
  stdout :: string
  stderr :: string

record Engine =
  domain_exists :: bool
  provision_attempted :: bool
  last_job :: "ProvisionJob option"
  tool_invocations :: "DomainConfig list"

definition classify :: "ToolResult \<Rightarrow> ProvisionJob" where
  "classify r =
     \<lparr> job_status = (if exitCode r = 0 then COMPLETED else FAILED),
       capturedOutput = stdout r, capturedError = stderr r \<rparr>"

definition provision :: "DomainConfig \<Rightarrow> ToolResult \<Rightarrow> Engine \<Rightarrow> (EngineError + ProvisionJob) \<times> Engine" where
  "provision config r e =
     (if domain_exists e \<or> provision_attempted e then (Inl PreconditionViolation, e)
      else (Inr (classify r),
            e\<lparr> domain_exists := (exitCode r = 0), provision_attempted := True,
               last_job := Some (classify r),
               tool_invocations := tool_invocations e @ [config] \<rparr>))"

definition engine_resetDomain :: "bool \<Rightarrow> bool \<Rightarrow> Engine \<Rightarrow> ResetResponse \<times> Engine" where
  "engine_resetDomain backup_ok removal_ok e =
     (if \<not> backup_ok then
        (\<lparr> success = False, reset_message = ''Backup failed; nothing was removed'' \<rparr>, e)
      else if \<not> removal_ok then
        (\<lparr> success = False, reset_message = ''Removal failed'' \<rparr>, e)
      else
        (\<lparr> success = True, reset_message = ''Domain reset'' \<rparr>,
         e\<lparr> domain_exists := False, provision_attempted := False \<rparr>))"

text \<open>Any number of further calls of \<open>provision\<close>, first call first.\<close>

fun provision_all :: "(DomainConfig \<times> ToolResult) list \<Rightarrow> Engine \<Rightarrow> Engine" where
  "provision_all [] e = e"
| "provision_all ((config, r) # rest) e = provision_all rest (snd (provision config r e))"

section \<open>Sample inputs\<close>

text \<open>Concrete stores, replies and configurations at which the theorems are evaluated.\<close>

definition failing_batch :: PrerequisitesResponse where
  "failing_batch =
     \<lparr> all_passed = False,
       checks =
         [\<lparr> check_name = ''Samba installation'', check_status = Failed,
            check_message = ''samba-tool not found'', check_details = None \<rparr>,
          \<lparr> check_name = ''Disk space'', check_status = Passed,
            check_message = ''Sufficient disk space'', check_details = None \<rparr>] \<rparr>"

definition sample_password :: string where
  "sample_password = ''Str0ngPass1!''"

definition configured_store :: SetupStore where
  "configured_store =
     initial_store\<lparr> currentStep := 5,
       domainConfig := initial_domainConfig\<lparr> realm := ''CORP.TEST'', domain := ''CORP'',
         domain_name := ''corp.test'', admin_password := sample_password \<rparr> \<rparr>"

definition completed_response :: ProvisionResponse where
  "completed_response =
     \<lparr> prov_status = COMPLETED, prov_message = ''Domain provisioned'', task_id = None,
       prov_output = Some ''Server Role: active directory domain controller'', prov_error = None \<rparr>"

definition initial_ProvisionView :: ProvisionView where
  "initial_ProvisionView =
     \<lparr> provisioning = False, provisionStatus = [], provisionOutput = [], pending_advance = 0 \<rparr>"

definition initial_VerificationView :: VerificationView where
  "initial_VerificationView =
     \<lparr> running = False, needsPassword = False, adminPassword = [], passwordError = [] \<rparr>"

definition long_name_config :: DomainConfig where
  "long_name_config =
     autofillFromDomain
       (initial_domainConfig\<lparr> domain_name := ''averyverylongdomainname.example.com'',
          admin_password := sample_password \<rparr>)"

definition sample_run :: VerificationResponse where
  "sample_run =
     \<lparr> overall_status = O_passed, total_tests = 1, passed = 1, failed = 0, skipped = 0,
       tests = [\<lparr> test_name = ''DNS: Resolve corp.test'', category = Cat_dns,
                  test_status = T_passed, test_message = ''Resolved'', test_details = None,
                  duration_ms = Some 45 \<rparr>],
       summary = ''All tests passed'' \<rparr>"

definition ldap_down_battery :: Battery where
  "ldap_down_battery =
     \<lparr> prerequisite_checks = [],
       dns_checks =
         [\<lparr> chk_name = ''DNS: Resolve corp.test'', chk_category = Cat_dns,
            chk_result = Inr (True, ''Resolved to 192.168.1.10'', None), chk_elapsed = 45 \<rparr>],
       port_checks =
         [\<lparr> chk_name = ''Port 88 (Kerberos)'', chk_category = Cat_services,
            chk_result = Inr (True, ''Port open'', None), chk_elapsed = 3 \<rparr>],
       ldap_bind =
         \<lparr> chk_name = ''LDAP: Anonymous bind'', chk_category = Cat_ldap,
           chk_result = Inr (False, ''Connection refused'', None), chk_elapsed = 2103 \<rparr>,
       ldap_queries =
         [\<lparr> chk_name = ''LDAP: Domain DN query'', chk_category = Cat_ldap,
            chk_result = Inr (True, ''Found'', None), chk_elapsed = 0 \<rparr>,
          \<lparr> chk_name = ''LDAP: Users container'', chk_category = Cat_ldap,
            chk_result = Inl (Error ''timeout''), chk_elapsed = 0 \<rparr>],
       ticket_checks = [],
       credentialed_checks = [] \<rparr>"

text \<open>
  The steps of one session: provisioning completes at the Provision step and schedules
  the auto-advance timer; the user clicks Continue to Verification, Continue Anyway and
  Run Setup Again, then Get Started; the Prerequisites step mounts and its check comes
  back with a failed entry.
\<close>

definition race_provisioned :: "ProvisionView \<times> SetupStore" where
  "race_provisioned =
     ProvisionStep_onMounted (Inr completed_response) (initial_ProvisionView, configured_store)"

definition race_at_verification :: "ProvisionView \<times> SetupStore" where
  "race_at_verification = continue_to_verification_click race_provisioned"

definition race_at_complete :: SetupStore where
  "race_at_complete =
     snd (VerificationStep_continue_click (initial_VerificationView, snd race_at_verification))"

definition race_at_prerequisites :: SetupStore where
  "race_at_prerequisites = getStarted_click (runSetupAgain_click race_at_complete)"

definition race_checked :: "bool \<times> SetupStore" where
  "race_checked = PrerequisitesStep_onMounted (Inr failing_batch) (False, race_at_prerequisites)"

definition clean_engine :: Engine where
  "clean_engine =
     \<lparr> domain_exists = False, provision_attempted = False, last_job = None,
       tool_invocations = [] \<rparr>"

definition tool_ok :: ToolResult where
  "tool_ok = \<lparr> exitCode = 0, stdout = ''Server Role: active directory domain controller'',
     stderr = [] \<rparr>"

definition tool_failed :: ToolResult where
  "tool_failed = \<lparr> exitCode = 255, stdout = [], stderr = ''ERROR: provision failed'' \<rparr>"


definition provisioned_status :: SetupStatusResponse where
  "provisioned_status =
     \<lparr> is_provisioned = True, domain_info = None, last_provision_date = None \<rparr>"


definition sample_info :: "string \<rightharpoonup> string" where
  "sample_info =
     [''Forest'' \<mapsto> ''corp.test'', ''Domain'' \<mapsto> ''corp.test'', ''Netbios domain'' \<mapsto> ''CORP'']"

definition introspected_config :: DomainConfig where
  "introspected_config =
     initial_domainConfig\<lparr> realm := ''CORP.TEST'', domain := ''CORP'',
       domain_name := ''corp.test'', admin_password := sample_password \<rparr>"

definition prompted_store :: SetupStore where
  "prompted_store = initial_store\<lparr> currentStep := 6, setupStatus := Some provisioned_status \<rparr>"

definition blocked_events :: "VerificationStep_event list" where
  "blocked_events =
     [Mounted (Inr provisioned_status) (Inl Thrown) (Inl Thrown) (Inr sample_run),
      Click_runTests (Inl Thrown) (Inr sample_run),
      Input_password ''secret'',
      Submit_password (Inl Thrown) (Inr sample_run),
      Modal_Reset (Inl Thrown) (Inl Thrown),
      Click_runTests (Inl Thrown) (Inr sample_run),
      Click_Continue]"

section \<open>Navigation: one step at a time, within 0..7\<close>

lemma nextStep_in_range:
  "0 \<le> currentStep s \<Longrightarrow> currentStep s \<le> 7 \<Longrightarrow>
   0 \<le> currentStep (nextStep s) \<and> currentStep (nextStep s) \<le> 7"
  by (simp add: nextStep_def)

lemma previousStep_in_range:
  "0 \<le> currentStep s \<Longrightarrow> currentStep s \<le> 7 \<Longrightarrow>
   0 \<le> currentStep (previousStep s) \<and> currentStep (previousStep s) \<le> 7"
  by (simp add: previousStep_def)

lemma navigate_in_range:
  "0 \<le> currentStep s \<Longrightarrow> currentStep s \<le> 7 \<Longrightarrow>
   0 \<le> currentStep (navigate ns s) \<and> currentStep (navigate ns s) \<le> 7"
proof (induction ns arbitrary: s)
  case Nil
  then show ?case by simp
next
  case (Cons n ns)
  show ?case
  proof (cases n)
    case Next
    with Cons.IH [of "nextStep s"] nextStep_in_range [OF Cons.prems] show ?thesis by simp
  next
    case Previous
    with Cons.IH [of "previousStep s"] previousStep_in_range [OF Cons.prems] show ?thesis by simp
  qed
qed

text \<open>
  Claim C7. \<^verbatim>\<open>nextStep()\<close> adds one to \<^verbatim>\<open>currentStep\<close> when it is below 7 and changes nothing
  at 7; \<^verbatim>\<open>previousStep()\<close> subtracts one when it is above 0 and changes nothing at 0; neither
  touches any other field of the store. Hence, from a step within 0..7 (Welcome..Complete),
  every sequence of the two operations ends at a step within 0..7.
\<close>

theorem step_navigation:
  "nextStep s = (if currentStep s < 7 then s\<lparr> currentStep := currentStep s + 1 \<rparr> else s) \<and>
   previousStep s = (if currentStep s > 0 then s\<lparr> currentStep := currentStep s - 1 \<rparr> else s) \<and>
   (currentStep s = 7 \<longrightarrow> nextStep s = s) \<and>
   (currentStep s = 0 \<longrightarrow> previousStep s = s) \<and>
   (0 \<le> currentStep s \<and> currentStep s \<le> 7 \<longrightarrow>
      0 \<le> currentStep (navigate ns s) \<and> currentStep (navigate ns s) \<le> 7)"
  using navigate_in_range [of s ns] by (simp add: nextStep_def previousStep_def)

theorem step_navigation_witness:
  "currentStep initial_store = 0 \<and>
   previousStep initial_store = initial_store \<and>
   currentStep (nextStep initial_store) = 1 \<and>
   currentStep (navigate [Next, Next, Next, Next, Next, Next, Next] initial_store) = 7 \<and>
   nextStep (navigate [Next, Next, Next, Next, Next, Next, Next] initial_store) =
     navigate [Next, Next, Next, Next, Next, Next, Next] initial_store \<and>
   0 \<le> currentStep (navigate [Next, Previous, Previous, Next, Next] initial_store) \<and>
   currentStep (navigate [Next, Previous, Previous, Next, Next] initial_store) \<le> 7"
  using step_navigation [of initial_store "[Next, Previous, Previous, Next, Next]"]
        step_navigation [of "navigate [Next, Next, Next, Next, Next, Next, Next] initial_store" "[]"]
  by (simp add: initial_store_def nextStep_def previousStep_def)

section \<open>Resetting the wizard\<close>

text \<open>
  Claim C10. \<^verbatim>\<open>resetWizard()\<close> sets \<^verbatim>\<open>currentStep\<close> to 0 (Welcome) and clears
  \<^verbatim>\<open>prerequisites\<close>, \<^verbatim>\<open>verificationResults\<close>, \<^verbatim>\<open>provisionResponse\<close> and \<^verbatim>\<open>error\<close>; it leaves
  \<^verbatim>\<open>domainConfig\<close> as it was, the administrator password included. A \<^verbatim>\<open>resetDomain()\<close> whose
  two requests both resolve returns the reply of the reset request and ends in the same
  state: step 0, the four fields cleared, \<^verbatim>\<open>domainConfig\<close> unchanged.
\<close>

theorem resetWizard_effect:
  "currentStep (resetWizard s) = 0 \<and>
   prerequisites (resetWizard s) = None \<and>
   verificationResults (resetWizard s) = None \<and>
   provisionResponse (resetWizard s) = None \<and>
   error (resetWizard s) = None \<and>
   domainConfig (resetWizard s) = domainConfig s \<and>
   admin_password (domainConfig (resetWizard s)) = admin_password (domainConfig s) \<and>
   fst (resetDomain (Inr r) (Inr st) s) = Inr r \<and>
   currentStep (snd (resetDomain (Inr r) (Inr st) s)) = 0 \<and>
   prerequisites (snd (resetDomain (Inr r) (Inr st) s)) = None \<and>
   verificationResults (snd (resetDomain (Inr r) (Inr st) s)) = None \<and>
   provisionResponse (snd (resetDomain (Inr r) (Inr st) s)) = None \<and>
   error (snd (resetDomain (Inr r) (Inr st) s)) = None \<and>
   domainConfig (snd (resetDomain (Inr r) (Inr st) s)) = domainConfig s"
  by (simp add: resetWizard_def resetDomain_def checkStatus_def begin_action_def Let_def)

section \<open>Failure of a backend request\<close>

lemma checkStatus_throws:
  "fst (checkStatus (Inl e) s) = Inl e \<and>
   cached_results (snd (checkStatus (Inl e) s)) = cached_results s \<and>
   error (snd (checkStatus (Inl e) s)) = Some (error_message e ''Failed to check status'') \<and>
   \<not> loading (snd (checkStatus (Inl e) s))"
  by (simp add: checkStatus_def begin_action_def fail_action_def cached_results_def)

lemma checkPrerequisites_throws:
  "fst (checkPrerequisites (Inl e) s) = Inl e \<and>
   cached_results (snd (checkPrerequisites (Inl e) s)) = cached_results s \<and>
   error (snd (checkPrerequisites (Inl e) s)) = Some (error_message e ''Failed to check prerequisites'') \<and>
   \<not> loading (snd (checkPrerequisites (Inl e) s))"
  by (simp add: checkPrerequisites_def begin_action_def fail_action_def cached_results_def)

lemma validateConfiguration_throws:
  "fst (validateConfiguration (Inl e) s) = Inl e \<and>
   cached_results (snd (validateConfiguration (Inl e) s)) = cached_results s \<and>
   error (snd (validateConfiguration (Inl e) s)) = Some (error_message e ''Configuration validation failed'') \<and>
   \<not> loading (snd (validateConfiguration (Inl e) s))"
  by (simp add: validateConfiguration_def begin_action_def fail_action_def cached_results_def)

lemma provisionDomain_throws:
  "fst (provisionDomain (Inl e) s) = Inl e \<and>
   cached_results (snd (provisionDomain (Inl e) s)) = cached_results s \<and>
   error (snd (provisionDomain (Inl e) s)) = Some (error_message e ''Domain provisioning failed'') \<and>
   \<not> loading (snd (provisionDomain (Inl e) s))"
  by (simp add: provisionDomain_def begin_action_def fail_action_def cached_results_def)

lemma runVerificationTests_throws:
  "fst (runVerificationTests (Inl e) s) = Inl e \<and>
   cached_results (snd (runVerificationTests (Inl e) s)) = cached_results s \<and>
   error (snd (runVerificationTests (Inl e) s)) = Some (error_message e ''Verification tests failed'') \<and>
   \<not> loading (snd (runVerificationTests (Inl e) s))"
  by (simp add: runVerificationTests_def begin_action_def fail_action_def cached_results_def)

lemma resetDomain_throws:
  "fst (resetDomain (Inl e) api_status s) = Inl e \<and>
   cached_results (snd (resetDomain (Inl e) api_status s)) = cached_results s \<and>
   error (snd (resetDomain (Inl e) api_status s)) = Some (error_message e ''Domain reset failed'') \<and>
   \<not> loading (snd (resetDomain (Inl e) api_status s))"
  by (simp add: resetDomain_def begin_action_def fail_action_def cached_results_def)

lemma resetDomain_status_throws:
  "fst (resetDomain (Inr r) (Inl e) s) = Inl e \<and>
   cached_results (snd (resetDomain (Inr r) (Inl e) s)) = cached_results s \<and>
   error (snd (resetDomain (Inr r) (Inl e) s)) = Some (error_message e ''Domain reset failed'') \<and>
   \<not> loading (snd (resetDomain (Inr r) (Inl e) s))"
  by (simp add: resetDomain_def checkStatus_def begin_action_def fail_action_def cached_results_def)

lemma loading_after_checkStatus: "\<not> loading (snd (checkStatus a s))"
  by (cases a) (simp_all add: checkStatus_def begin_action_def fail_action_def)

lemma loading_after_checkPrerequisites: "\<not> loading (snd (checkPrerequisites a s))"
  by (cases a) (simp_all add: checkPrerequisites_def begin_action_def fail_action_def)

lemma loading_after_validateConfiguration: "\<not> loading (snd (validateConfiguration a s))"
  by (cases a) (simp_all add: validateConfiguration_def begin_action_def fail_action_def)

lemma loading_after_provisionDomain: "\<not> loading (snd (provisionDomain a s))"
  by (cases a) (simp_all add: provisionDomain_def begin_action_def fail_action_def)

lemma loading_after_runVerificationTests: "\<not> loading (snd (runVerificationTests a s))"
  by (cases a) (simp_all add: runVerificationTests_def begin_action_def fail_action_def)

lemma loading_after_resetDomain: "\<not> loading (snd (resetDomain a b s))"
  by (cases a; cases b)
     (simp_all add: resetDomain_def checkStatus_def resetWizard_def begin_action_def fail_action_def)

text \<open>
  Claim C9. For each store action that calls the backend (\<^verbatim>\<open>checkStatus\<close>,
  \<^verbatim>\<open>checkPrerequisites\<close>, \<^verbatim>\<open>validateConfiguration\<close>, \<^verbatim>\<open>provisionDomain\<close>,
  \<^verbatim>\<open>runVerificationTests\<close>, \<^verbatim>\<open>resetDomain\<close>): when the request throws \<open>e\<close>, the action
  re-throws \<open>e\<close>, the cached results \<^verbatim>\<open>setupStatus\<close>, \<^verbatim>\<open>prerequisites\<close>,
  \<^verbatim>\<open>provisionResponse\<close> and \<^verbatim>\<open>verificationResults\<close> are what they were, and \<^verbatim>\<open>error\<close> holds a
  message (that of \<open>e\<close>, or the action's fallback text). For \<^verbatim>\<open>resetDomain\<close> this covers a
  throw of the reset request and a throw of the status refresh that follows it. Whatever
  the outcome of the requests, \<^verbatim>\<open>loading\<close> is false when the action has completed.
\<close>

theorem backend_failure_handling:
  "(fst (checkStatus (Inl e) s) = Inl e \<and>
    cached_results (snd (checkStatus (Inl e) s)) = cached_results s \<and>
    error (snd (checkStatus (Inl e) s)) = Some (error_message e ''Failed to check status'') \<and>
    \<not> loading (snd (checkStatus (Inl e) s))) \<and>
   (fst (checkPrerequisites (Inl e) s) = Inl e \<and>
    cached_results (snd (checkPrerequisites (Inl e) s)) = cached_results s \<and>
    error (snd (checkPrerequisites (Inl e) s)) =
      Some (error_message e ''Failed to check prerequisites'') \<and>
    \<not> loading (snd (checkPrerequisites (Inl e) s))) \<and>
   (fst (validateConfiguration (Inl e) s) = Inl e \<and>
    cached_results (snd (validateConfiguration (Inl e) s)) = cached_results s \<and>
    error (snd (validateConfiguration (Inl e) s)) =
      Some (error_message e ''Configuration validation failed'') \<and>
    \<not> loading (snd (validateConfiguration (Inl e) s))) \<and>
   (fst (provisionDomain (Inl e) s) = Inl e \<and>
    cached_results (snd (provisionDomain (Inl e) s)) = cached_results s \<and>
    error (snd (provisionDomain (Inl e) s)) =
      Some (error_message e ''Domain provisioning failed'') \<and>
    \<not> loading (snd (provisionDomain (Inl e) s))) \<and>
   (fst (runVerificationTests (Inl e) s) = Inl e \<and>
    cached_results (snd (runVerificationTests (Inl e) s)) = cached_results s \<and>
    error (snd (runVerificationTests (Inl e) s)) =
      Some (error_message e ''Verification tests failed'') \<and>
    \<not> loading (snd (runVerificationTests (Inl e) s))) \<and>
   (fst (resetDomain (Inl e) api_status s) = Inl e \<and>
    cached_results (snd (resetDomain (Inl e) api_status s)) = cached_results s \<and>
    error (snd (resetDomain (Inl e) api_status s)) =
      Some (error_message e ''Domain reset failed'') \<and>
    \<not> loading (snd (resetDomain (Inl e) api_status s))) \<and>
   (fst (resetDomain (Inr r) (Inl e) s) = Inl e \<and>
    cached_results (snd (resetDomain (Inr r) (Inl e) s)) = cached_results s \<and>
    error (snd (resetDomain (Inr r) (Inl e) s)) =
      Some (error_message e ''Domain reset failed'') \<and>
    \<not> loading (snd (resetDomain (Inr r) (Inl e) s))) \<and>
   \<not> loading (snd (checkStatus a1 s)) \<and>
   \<not> loading (snd (checkPrerequisites a2 s)) \<and>
   \<not> loading (snd (validateConfiguration a3 s)) \<and>
   \<not> loading (snd (provisionDomain a4 s)) \<and>
   \<not> loading (snd (runVerificationTests a5 s)) \<and>
   \<not> loading (snd (resetDomain a6 a7 s))"
  by (intro conjI checkStatus_throws checkPrerequisites_throws validateConfiguration_throws
      provisionDomain_throws runVerificationTests_throws resetDomain_throws
      resetDomain_status_throws loading_after_checkStatus loading_after_checkPrerequisites
      loading_after_validateConfiguration loading_after_provisionDomain
      loading_after_runVerificationTests loading_after_resetDomain)

section \<open>The gate of the Prerequisites step\<close>

text \<open>
  The Continue button of the Prerequisites step obeys the gate: it advances only when a
  batch is present with \<^verbatim>\<open>all_passed\<close> true and no check is running.
\<close>

lemma continue_click_gated:
  assumes "currentStep (snd vs) = 1"
    and "currentStep (snd (continue_click vs)) \<noteq> 1"
  shows "\<not> fst vs \<and> (\<exists>p. prerequisites (snd vs) = Some p \<and> all_passed p)"
  using assms
  by (auto simp: continue_click_def continue_disabled_def canProceed_def
      split: if_splits option.splits)

text \<open>
  The store's \<^verbatim>\<open>nextStep\<close> does not look at \<^verbatim>\<open>canProceed\<close>, and neither does the callback
  of the auto-advance timer: a pending timer moves the wizard from step 1 to step 2
  whatever the prerequisites are.
\<close>

lemma advance_timer_ignores_gate:
  assumes "currentStep (snd vs) = 1" and "pending_advance (fst vs) > 0"
  shows "currentStep (snd (advance_timer_fires vs)) = 2"
  using assms by (simp add: advance_timer_fires_def nextStep_def)

text \<open>
  Claim C1. The wizard must not pass the Prerequisites step unless the last batch of
  prerequisite results has \<^verbatim>\<open>all_passed\<close> true. The code breaks this. Provisioning
  completes at step 5 and \<^verbatim>\<open>startProvisioning\<close> schedules the auto-advance timer; before
  the timer fires the user clicks Continue to Verification (step 6), Continue Anyway
  (step 7), Run Setup Again (step 0) and Get Started (step 1). At step 1 no batch is
  present; the timer firing now moves the wizard to step 2. If the check comes back first,
  with a failed entry and \<^verbatim>\<open>all_passed\<close> false, then \<^verbatim>\<open>canProceed\<close> is false, the Continue
  button is disabled and its click changes nothing, and the timer still moves the wizard
  to step 2 with that batch in the store.
\<close>

theorem prerequisites_gate_bypassed:
  "pending_advance (fst race_provisioned) = 1 \<and>
   currentStep (snd race_provisioned) = 5 \<and>
   currentStep (snd race_at_verification) = 6 \<and>
   currentStep race_at_complete = 7 \<and>
   currentStep race_at_prerequisites = 1 \<and>
   prerequisites race_at_prerequisites = None \<and>
   \<not> canProceed race_at_prerequisites \<and>
   currentStep (snd (advance_timer_fires (fst race_provisioned, race_at_prerequisites))) = 2 \<and>
   currentStep (snd race_checked) = 1 \<and>
   prerequisites (snd race_checked) = Some failing_batch \<and>
   \<not> all_passed failing_batch \<and>
   map check_status (checks failing_batch) = [Failed, Passed] \<and>
   \<not> canProceed (snd race_checked) \<and>
   continue_click race_checked = race_checked \<and>
   currentStep (snd (advance_timer_fires (fst race_provisioned, snd race_checked))) = 2 \<and>
   prerequisites (snd (advance_timer_fires (fst race_provisioned, snd race_checked))) =
     Some failing_batch"
  by (simp add: race_checked_def race_at_prerequisites_def race_at_complete_def
      race_at_verification_def race_provisioned_def
      PrerequisitesStep_onMounted_def runChecks_def checkPrerequisites_def
      getStarted_click_def runSetupAgain_click_def resetWizard_def
      VerificationStep_continue_click_def continue_to_verification_click_def
      continue_to_verification_visible_def ProvisionStep_onMounted_def startProvisioning_def
      provisionDomain_def begin_action_def isProvisioned_def advance_timer_fires_def
      nextStep_def canProceed_def continue_disabled_def continue_click_def
      failing_batch_def configured_store_def initial_store_def initial_ProvisionView_def
      initial_VerificationView_def completed_response_def truthy_def Let_def)

lemmas string_ops =
  toUpperCase_def toLowerCase_def lower_letters_def upper_letters_def truthy_def

section \<open>Length of the NetBIOS domain name\<close>

text \<open>
  Claim C8. The validity predicate of the domain-configuration step should accept only
  configurations whose NetBIOS domain name has at most 15 characters. It does not look at
  that length: the user types the DNS domain name \<open>averyverylongdomainname.example.com\<close>,
  the field loses focus, \<^verbatim>\<open>autofillFromDomain\<close> writes the 23 characters
  \<open>AVERYVERYLONGDOMAINNAME\<close> into \<^verbatim>\<open>config.domain\<close> (an assignment, which the attribute
  \<^verbatim>\<open>maxlength="15"\<close> of the input does not limit), and with a matching password of 12
  characters \<^verbatim>\<open>isValid\<close> is true.
\<close>

theorem isValid_accepts_long_netbios:
  "isValid long_name_config sample_password \<and>
   domain long_name_config = ''AVERYVERYLONGDOMAINNAME'' \<and>
   length (domain long_name_config) = 23 \<and>
   \<not> length (domain long_name_config) \<le> 15"
  by (simp add: long_name_config_def autofillFromDomain_def isValid_def passwordsMatch_def
      initial_domainConfig_def sample_password_def string_ops Let_def)

section \<open>Where the administrator password lives\<close>

lemma apply_domainInfo_password:
  "admin_password (apply_domainInfo info c) = admin_password c"
  by (simp add: apply_domainInfo_def Let_def)

lemma checkAndPrepareConfig_password:
  "admin_password (domainConfig (snd (checkAndPrepareConfig ai vs))) =
   admin_password (domainConfig (snd vs))"
  by (cases ai)
     (simp_all add: checkAndPrepareConfig_def check_password_def apply_domainInfo_password Let_def)

lemma runVerificationTests_domainConfig:
  "domainConfig (snd (runVerificationTests b s)) = domainConfig s"
  by (cases b) (simp_all add: runVerificationTests_def begin_action_def fail_action_def)

lemma provisionDomain_domainConfig:
  "domainConfig (snd (provisionDomain a s)) = domainConfig s"
  by (cases a) (simp_all add: provisionDomain_def begin_action_def fail_action_def)

lemma runTests_password:
  "admin_password (domainConfig (snd (runTests ai av vs))) =
   admin_password (domainConfig (snd vs))"
  by (simp add: runTests_def Let_def checkAndPrepareConfig_password
      runVerificationTests_domainConfig)

text \<open>
  A session with the password \<open>Str0ngPass1!\<close> in its configuration provisions, then
  verifies; both calls complete normally. The configuration holds the password after the
  first call and after the second.
\<close>

theorem password_outlives_calls_counterexample:
  "admin_password (domainConfig (snd (provisionDomain (Inr completed_response) configured_store))) =
     ''Str0ngPass1!'' \<and>
   admin_password (domainConfig (snd (runVerificationTests (Inr sample_run)
     (snd (provisionDomain (Inr completed_response) configured_store))))) = ''Str0ngPass1!'' \<and>
   fst (runVerificationTests (Inr sample_run)
     (snd (provisionDomain (Inr completed_response) configured_store))) = Inr sample_run"
  by (simp add: provisionDomain_def runVerificationTests_def begin_action_def
      configured_store_def initial_store_def initial_domainConfig_def sample_password_def)

text \<open>
  Claim C4, amended. The administrator password held in the session's \<^verbatim>\<open>domainConfig\<close> is
  still there when \<^verbatim>\<open>provisionDomain\<close> and \<^verbatim>\<open>runVerificationTests\<close> have completed: each
  leaves \<^verbatim>\<open>domainConfig\<close> as it was, whatever the backend answers, and each sends it,
  password included, as the body of its one request.
\<close>

theorem password_kept_in_session:
  "domainConfig (snd (provisionDomain a s)) = domainConfig s \<and>
   domainConfig (snd (runVerificationTests b s)) = domainConfig s \<and>
   requests (snd (provisionDomain a s)) = requests s @ [ProvisionDomain (domainConfig s)] \<and>
   requests (snd (runVerificationTests b s)) = requests s @ [VerifyInstallation (domainConfig s)]"
proof (intro conjI)
  show "domainConfig (snd (provisionDomain a s)) = domainConfig s"
    by (rule provisionDomain_domainConfig)
  show "domainConfig (snd (runVerificationTests b s)) = domainConfig s"
    by (rule runVerificationTests_domainConfig)
  show "requests (snd (provisionDomain a s)) = requests s @ [ProvisionDomain (domainConfig s)]"
    by (cases a) (simp_all add: provisionDomain_def begin_action_def fail_action_def)
  show "requests (snd (runVerificationTests b s)) =
        requests s @ [VerifyInstallation (domainConfig s)]"
    by (cases b) (simp_all add: runVerificationTests_def begin_action_def fail_action_def)
qed

section \<open>Provisioning more than once\<close>

lemma provision_refused:
  "domain_exists e \<or> provision_attempted e \<Longrightarrow> provision c r e = (Inl PreconditionViolation, e)"
  by (simp add: provision_def)

lemma provision_sets_guard:
  "domain_exists (snd (provision c r e)) \<or> provision_attempted (snd (provision c r e))"
  by (simp add: provision_def)

lemma provision_all_refused:
  "domain_exists e \<or> provision_attempted e \<Longrightarrow> provision_all crs e = e"
proof (induction crs)
  case Nil
  show ?case by simp
next
  case (Cons cr crs)
  obtain c r where cr: "cr = (c, r)" by (cases cr)
  from Cons.prems have "provision c r e = (Inl PreconditionViolation, e)"
    by (rule provision_refused)
  with Cons cr show ?case by simp
qed

lemma failed_reset_keeps_engine:
  "\<not> (backup_ok \<and> removal_ok) \<Longrightarrow> snd (engine_resetDomain backup_ok removal_ok e) = e"
  by (auto simp: engine_resetDomain_def)

text \<open>
  On a clean host the first call is carried out, so the refusal of the second is not the
  refusal of every call: the tool runs once, with the configuration, and its exit code
  decides the status of the job.
\<close>

lemma provision_on_clean_host:
  "provision c tool_ok clean_engine =
     (Inr \<lparr> job_status = COMPLETED,
            capturedOutput = ''Server Role: active directory domain controller'',
            capturedError = [] \<rparr>,
      \<lparr> domain_exists = True, provision_attempted = True,
        last_job = Some \<lparr> job_status = COMPLETED,
            capturedOutput = ''Server Role: active directory domain controller'',
            capturedError = [] \<rparr>,
        tool_invocations = [c] \<rparr>) \<and>
   job_status (classify tool_failed) = FAILED \<and>
   capturedError (classify tool_failed) = ''ERROR: provision failed'' \<and>
   tool_invocations (snd (provision c tool_failed clean_engine)) = [c] \<and>
   fst (provision c tool_ok (snd (provision c tool_failed clean_engine))) =
     Inl PreconditionViolation"
  by (simp add: provision_def classify_def clean_engine_def tool_ok_def tool_failed_def)

text \<open>
  Claim C3. Whatever the state of the engine and whatever the first call did (refused,
  completed or failed), a second \<open>provision\<close> with no completed reset in between is
  refused with the precondition-violation error and leaves the engine as it was: the tool
  is not invoked again and the session's job is not replaced; the same holds for any
  number of further calls, and a reset that failed at the backup or at the removal does
  not lift the refusal. After a completed reset the next call is carried out: the tool is
  invoked once more and the job is the one of that invocation. In the client the refusal
  arrives as a rejected request: \<^verbatim>\<open>provisionDomain\<close> re-throws it, sets \<^verbatim>\<open>error\<close> and keeps
  the \<^verbatim>\<open>provisionResponse\<close> it had.
\<close>

theorem second_provision_refused:
  "fst (provision c2 r2 (snd (provision c1 r1 e))) = Inl PreconditionViolation \<and>
   snd (provision c2 r2 (snd (provision c1 r1 e))) = snd (provision c1 r1 e) \<and>
   tool_invocations (snd (provision c2 r2 (snd (provision c1 r1 e)))) =
     tool_invocations (snd (provision c1 r1 e)) \<and>
   last_job (snd (provision c2 r2 (snd (provision c1 r1 e)))) =
     last_job (snd (provision c1 r1 e)) \<and>
   provision_all crs (snd (provision c1 r1 e)) = snd (provision c1 r1 e) \<and>
   fst (provision c2 r2 (snd (engine_resetDomain False removal_ok (snd (provision c1 r1 e))))) =
     Inl PreconditionViolation \<and>
   fst (provision c2 r2 (snd (engine_resetDomain True False (snd (provision c1 r1 e))))) =
     Inl PreconditionViolation \<and>
   fst (provision c2 r2 (snd (engine_resetDomain True True (snd (provision c1 r1 e))))) =
     Inr (classify r2) \<and>
   tool_invocations
     (snd (provision c2 r2 (snd (engine_resetDomain True True (snd (provision c1 r1 e)))))) =
     tool_invocations (snd (provision c1 r1 e)) @ [c2] \<and>
   last_job
     (snd (provision c2 r2 (snd (engine_resetDomain True True (snd (provision c1 r1 e)))))) =
     Some (classify r2) \<and>
   fst (provisionDomain (Inl x) s) = Inl x \<and>
   provisionResponse (snd (provisionDomain (Inl x) s)) = provisionResponse s \<and>
   error (snd (provisionDomain (Inl x) s)) =
     Some (error_message x ''Domain provisioning failed'')"
proof -
  let ?e1 = "snd (provision c1 r1 e)"
  have guard: "domain_exists ?e1 \<or> provision_attempted ?e1"
    by (rule provision_sets_guard)
  have second: "provision c2 r2 ?e1 = (Inl PreconditionViolation, ?e1)"
    using guard by (rule provision_refused)
  have all: "provision_all crs ?e1 = ?e1"
    using guard by (rule provision_all_refused)
  have nobackup: "snd (engine_resetDomain False removal_ok ?e1) = ?e1"
    by (simp add: failed_reset_keeps_engine)
  have noremoval: "snd (engine_resetDomain True False ?e1) = ?e1"
    by (simp add: failed_reset_keeps_engine)
  have reset: "\<not> domain_exists (snd (engine_resetDomain True True ?e1)) \<and>
      \<not> provision_attempted (snd (engine_resetDomain True True ?e1)) \<and>
      tool_invocations (snd (engine_resetDomain True True ?e1)) = tool_invocations ?e1"
    by (simp add: engine_resetDomain_def)
  have client: "fst (provisionDomain (Inl x) s) = Inl x \<and>
      provisionResponse (snd (provisionDomain (Inl x) s)) = provisionResponse s \<and>
      error (snd (provisionDomain (Inl x) s)) =
        Some (error_message x ''Domain provisioning failed'')"
    by (simp add: provisionDomain_def begin_action_def fail_action_def)
  show ?thesis
    using second all nobackup noremoval reset client
    by (simp add: provision_def)
qed

section \<open>The verdict of a verification run\<close>

lemma total_split:
  "length ts = count_status T_passed ts + count_status T_failed ts +
     count_status T_skipped ts + count_status T_running ts"
proof (induction ts)
  case Nil
  show ?case by (simp add: count_status_def)
next
  case (Cons t ts)
  then show ?case by (cases "test_status t") (simp_all add: count_status_def)
qed

lemma counts_add_up_aggregate:
  "counts_add_up (aggregate ts line) = (count_status T_running ts = 0)"
  using total_split [of ts] by (simp add: counts_add_up_def aggregate_def)

text \<open>
  Where some verdict satisfies the three clauses of the rule, it is the verdict that
  \<open>overallStatus_of\<close> computes: on those counts the order of the clauses plays no role.
\<close>

lemma verdict_rule_unique:
  "verdict_rule r \<Longrightarrow> overall_status r = overallStatus_of (passed r) (failed r) (skipped r)"
  by (cases "overall_status r") (auto simp: verdict_rule_def overallStatus_of_def)

lemma count_status_Nil: "count_status st [] = 0"
  by (simp add: count_status_def)

lemma count_status_Cons:
  "count_status st (t # ts) = (if test_status t = st then 1 else 0) + count_status st ts"
  by (simp add: count_status_def)

lemma count_status_append:
  "count_status st (xs @ ys) = count_status st xs + count_status st ys"
  by (simp add: count_status_def)

lemma run_check_status:
  "test_status (run_check c) = T_passed \<or> test_status (run_check c) = T_failed"
  by (simp add: run_check_def split: sum.splits prod.splits)

lemma skip_check_status: "test_status (skip_check c) = T_skipped"
  by (simp add: skip_check_def)

lemma count_run_checks:
  "count_status T_skipped (map run_check cs) = 0 \<and> count_status T_running (map run_check cs) = 0"
proof (induction cs)
  case Nil
  show ?case by (simp add: count_status_Nil)
next
  case (Cons c cs)
  with run_check_status [of c] show ?case by (auto simp: count_status_Cons)
qed

lemma count_skip_checks:
  "count_status T_skipped (map skip_check cs) = length cs \<and>
   count_status T_running (map skip_check cs) = 0"
  by (induction cs) (simp_all add: count_status_Nil count_status_Cons skip_check_status)

text \<open>The three facts about a run of the battery on which the verdict rests.\<close>

lemma run_battery_finished: "count_status T_running (run_battery b) = 0"
  using run_check_status [of "ldap_bind b"]
  by (auto simp: run_battery_def run_ldap_def Let_def count_status_append count_status_Cons
      count_run_checks count_skip_checks)

lemma run_battery_not_empty: "run_battery b \<noteq> []"
  by (simp add: run_battery_def run_ldap_def Let_def)

lemma run_battery_skipped:
  assumes "count_status T_skipped (run_battery b) > 0"
  shows "count_status T_failed (run_battery b) > 0"
proof -
  have ldap: "count_status T_skipped (run_ldap b) > 0"
    using assms by (simp add: run_battery_def count_status_append count_run_checks)
  have "test_status (run_check (ldap_bind b)) \<noteq> T_passed"
  proof
    assume "test_status (run_check (ldap_bind b)) = T_passed"
    then have "count_status T_skipped (run_ldap b) = 0"
      by (simp add: run_ldap_def Let_def count_run_checks count_status_Cons)
    with ldap show False by simp
  qed
  with run_check_status [of "ldap_bind b"]
  have "test_status (run_check (ldap_bind b)) = T_failed" by simp
  then have "count_status T_failed (run_ldap b) > 0"
    by (simp add: run_ldap_def Let_def count_status_Cons)
  then show ?thesis by (simp add: run_battery_def count_status_append)
qed

text \<open>
  The scenario of the specification: the directory service is down, the bind fails, the
  two queries that depend on it are skipped, the DNS and port checks pass; the verdict is
  \<open>partial\<close>.
\<close>

lemma ldap_down_scenario:
  "map test_status (tests (runVerification ldap_down_battery ''2 of 5 passed'')) =
     [T_passed, T_passed, T_failed, T_skipped, T_skipped] \<and>
   total_tests (runVerification ldap_down_battery ''2 of 5 passed'') = 5 \<and>
   passed (runVerification ldap_down_battery ''2 of 5 passed'') = 2 \<and>
   failed (runVerification ldap_down_battery ''2 of 5 passed'') = 1 \<and>
   skipped (runVerification ldap_down_battery ''2 of 5 passed'') = 2 \<and>
   overall_status (runVerification ldap_down_battery ''2 of 5 passed'') = O_partial"
  by (simp add: runVerification_def aggregate_def run_battery_def run_ldap_def run_check_def
      skip_check_def count_status_def overallStatus_of_def ldap_down_battery_def Let_def)

text \<open>
  Claim C2. For every run that \<open>runVerification\<close> produces, passedCount + failedCount +
  skippedCount = totalCount, and the verdict is \<open>passed\<close> iff failedCount = 0 and
  skippedCount = 0, \<open>partial\<close> iff passedCount > 0 and failedCount > 0, and \<open>failed\<close> iff
  passedCount = 0.
\<close>

theorem verification_run_verdict:
  "passed (runVerification b line) + failed (runVerification b line) +
     skipped (runVerification b line) = total_tests (runVerification b line) \<and>
   (overall_status (runVerification b line) = O_passed) =
     (failed (runVerification b line) = 0 \<and> skipped (runVerification b line) = 0) \<and>
   (overall_status (runVerification b line) = O_partial) =
     (passed (runVerification b line) > 0 \<and> failed (runVerification b line) > 0) \<and>
   (overall_status (runVerification b line) = O_failed) =
     (passed (runVerification b line) = 0) \<and>
   counts_add_up (runVerification b line) \<and>
   verdict_rule (runVerification b line)"
proof -
  let ?ts = "run_battery b"
  have fin: "count_status T_running ?ts = 0" by (rule run_battery_finished)
  have sum: "counts_add_up (runVerification b line)"
    using fin by (simp add: runVerification_def counts_add_up_aggregate)
  have "length ?ts > 0" using run_battery_not_empty [of b] by simp
  with fin have pos: "count_status T_passed ?ts + count_status T_failed ?ts +
      count_status T_skipped ?ts > 0"
    using total_split [of ?ts] by simp
  have skip: "count_status T_skipped ?ts > 0 \<longrightarrow> count_status T_failed ?ts > 0"
    using run_battery_skipped [of b] by blast
  have rule: "verdict_rule (runVerification b line)"
    using pos skip
    by (auto simp: verdict_rule_def runVerification_def aggregate_def overallStatus_of_def)
  show ?thesis
    using sum rule by (simp add: counts_add_up_def verdict_rule_def)
qed

section \<open>Preparing the configuration and running the tests\<close>

lemma checkAndPrepareConfig_requests:
  "requests (snd (checkAndPrepareConfig ai vs)) =
   requests (snd vs) @
     (if isProvisioned (snd vs) \<and> placeholder_config (domainConfig (snd vs))
      then [GetDomainInfo] else [])"
  by (cases ai) (simp_all add: checkAndPrepareConfig_def check_password_def Let_def)

lemma checkAndPrepareConfig_verify_calls:
  "verify_calls (snd (checkAndPrepareConfig ai vs)) = verify_calls (snd vs)"
  by (simp add: verify_calls_def checkAndPrepareConfig_requests is_verify_def)

lemma checkAndPrepareConfig_results:
  "verificationResults (snd (checkAndPrepareConfig ai vs)) = verificationResults (snd vs)"
  by (cases ai) (simp_all add: checkAndPrepareConfig_def check_password_def Let_def)

lemma checkAndPrepareConfig_adminPassword:
  "adminPassword (fst (checkAndPrepareConfig ai vs)) = adminPassword (fst vs)"
  by (cases ai) (simp_all add: checkAndPrepareConfig_def check_password_def Let_def)

lemma runTests_adminPassword:
  "adminPassword (fst (runTests ai av vs)) = adminPassword (fst vs)"
  by (simp add: runTests_def Let_def checkAndPrepareConfig_adminPassword)

section \<open>Introspection of an existing domain\<close>

lemma checkAndPrepareConfig_domainConfig:
  "domainConfig (snd (checkAndPrepareConfig ai vs)) =
     (if isProvisioned (snd vs) \<and> placeholder_config (domainConfig (snd vs))
      then (case ai of Inl e \<Rightarrow> domainConfig (snd vs)
            | Inr info \<Rightarrow> apply_domainInfo info (domainConfig (snd vs)))
      else domainConfig (snd vs))"
  by (cases ai) (simp_all add: checkAndPrepareConfig_def check_password_def Let_def)


lemma runTests_requests:
  "requests (snd (runTests ai av vs)) =
   requests (snd (checkAndPrepareConfig ai vs)) @
     (if length (admin_password (domainConfig (snd (checkAndPrepareConfig ai vs)))) < 8 \<or>
         placeholder_config (domainConfig (snd (checkAndPrepareConfig ai vs)))
      then []
      else [VerifyInstallation (domainConfig (snd (checkAndPrepareConfig ai vs)))])"
  by (cases av)
     (simp_all add: runTests_def Let_def runVerificationTests_def begin_action_def fail_action_def)




lemma apply_sample_info:
  "apply_domainInfo sample_info (initial_domainConfig\<lparr> admin_password := sample_password \<rparr>) =
   introspected_config"
  by (simp add: apply_domainInfo_def sample_info_def introspected_config_def
      initial_domainConfig_def string_ops Let_def)


section \<open>Verification needs a password\<close>

lemma runTests_domainConfig:
  "domainConfig (snd (runTests ai av vs)) = domainConfig (snd (checkAndPrepareConfig ai vs))"
  by (simp add: runTests_def Let_def runVerificationTests_domainConfig)

lemma runTests_verify_calls:
  "verify_calls (snd (runTests ai av vs)) =
   verify_calls (snd vs) @
     (if length (admin_password (domainConfig (snd (runTests ai av vs)))) < 8 \<or>
         placeholder_config (domainConfig (snd (runTests ai av vs)))
      then []
      else [VerifyInstallation (domainConfig (snd (runTests ai av vs)))])"
  by (simp add: verify_calls_def runTests_requests runTests_domainConfig
      checkAndPrepareConfig_requests is_verify_def)

lemma runTests_short_password:
  assumes "length (admin_password (domainConfig (snd vs))) < 8"
  shows "needsPassword (fst (runTests ai av vs))"
    and "verify_calls (snd (runTests ai av vs)) = verify_calls (snd vs)"
    and "verificationResults (snd (runTests ai av vs)) = verificationResults (snd vs)"
    and "passwordError (fst (runTests ai av vs)) =
           ''Administrator password is required for verification tests''"
  using assms
  by (simp_all add: runTests_def Let_def checkAndPrepareConfig_password
      checkAndPrepareConfig_verify_calls checkAndPrepareConfig_results)

lemma submitPassword_short:
  assumes "length (adminPassword (fst vs)) < 8"
  shows "snd (submitPassword ai av vs) = snd vs"
    and "needsPassword (fst (submitPassword ai av vs)) = needsPassword (fst vs)"
    and "adminPassword (fst (submitPassword ai av vs)) = adminPassword (fst vs)"
  using assms by (simp_all add: submitPassword_def Let_def)

lemma checkAndPrepareConfig_short_password:
  assumes "length (admin_password (domainConfig (snd vs))) < 8"
  shows "needsPassword (fst (checkAndPrepareConfig ai vs))"
  using assms
  by (cases ai)
     (simp_all add: checkAndPrepareConfig_def check_password_def apply_domainInfo_password Let_def)

lemma onMounted_short_password:
  assumes "length (admin_password (domainConfig (snd vs))) < 8"
  shows "length (admin_password (domainConfig
           (snd (VerificationStep_onMounted api_status ai aj av vs)))) < 8 \<and>
         adminPassword (fst (VerificationStep_onMounted api_status ai aj av vs)) =
           adminPassword (fst vs) \<and>
         verify_calls (snd (VerificationStep_onMounted api_status ai aj av vs)) =
           verify_calls (snd vs) \<and>
         verificationResults (snd (VerificationStep_onMounted api_status ai aj av vs)) =
           verificationResults (snd vs) \<and>
         (needsPassword (fst vs) \<longrightarrow>
            needsPassword (fst (VerificationStep_onMounted api_status ai aj av vs)))"
proof (cases api_status)
  case (Inl e)
  with assms show ?thesis
    by (simp add: VerificationStep_onMounted_def checkStatus_def begin_action_def
        fail_action_def verify_calls_def is_verify_def)
next
  case (Inr st)
  define s1 where "s1 = snd (checkStatus (Inr st) (snd vs))"
  have cs: "checkStatus (Inr st) (snd vs) = (Inr (), s1)"
    by (simp add: s1_def checkStatus_def Let_def)
  have s1: "domainConfig s1 = domainConfig (snd vs)" "verify_calls s1 = verify_calls (snd vs)"
    "verificationResults s1 = verificationResults (snd vs)"
    by (simp_all add: s1_def checkStatus_def begin_action_def verify_calls_def is_verify_def)
  from assms s1 have short: "length (admin_password (domainConfig (snd (fst vs, s1)))) < 8"
    by simp
  have prompt: "needsPassword (fst (checkAndPrepareConfig ai (fst vs, s1)))"
    by (rule checkAndPrepareConfig_short_password [OF short])
  then have eq: "VerificationStep_onMounted api_status ai aj av vs =
      checkAndPrepareConfig ai (fst vs, s1)"
    by (simp add: Inr VerificationStep_onMounted_def cs Let_def)
  show ?thesis
    using prompt assms s1
    by (simp add: eq checkAndPrepareConfig_password checkAndPrepareConfig_adminPassword
        checkAndPrepareConfig_verify_calls checkAndPrepareConfig_results)
qed

lemma handleReset_frame:
  "domainConfig (snd (handleReset a b s)) = domainConfig s \<and>
   verify_calls (snd (handleReset a b s)) = verify_calls s \<and>
   (verificationResults (snd (handleReset a b s)) = verificationResults s \<or>
    verificationResults (snd (handleReset a b s)) = None)"
  by (cases a; cases b)
     (simp_all add: handleReset_def resetDomain_def checkStatus_def resetWizard_def
        begin_action_def fail_action_def verify_calls_def is_verify_def)

text \<open>
  As long as the password of the configuration and every password typed are shorter than
  8 characters, no event of the Verification step changes that, sends a verification
  request or brings results, and the prompt, once shown, stays.
\<close>

lemma VerificationStep_fire_blocked:
  assumes "length (admin_password (domainConfig (snd vs))) < 8"
    and "length (adminPassword (fst vs)) < 8"
    and "short_input ev"
  shows "length (admin_password (domainConfig (snd (VerificationStep_fire ev vs)))) < 8 \<and>
         length (adminPassword (fst (VerificationStep_fire ev vs))) < 8 \<and>
         verify_calls (snd (VerificationStep_fire ev vs)) = verify_calls (snd vs) \<and>
         (verificationResults (snd (VerificationStep_fire ev vs)) = verificationResults (snd vs) \<or>
          verificationResults (snd (VerificationStep_fire ev vs)) = None) \<and>
         (needsPassword (fst vs) \<longrightarrow> needsPassword (fst (VerificationStep_fire ev vs)))"
proof (cases ev)
  case (Mounted api_status ai aj av)
  with assms onMounted_short_password [of vs api_status ai aj av] show ?thesis by simp
next
  case (Input_password p)
  with assms show ?thesis by (simp add: short_input_def)
next
  case (Submit_password ai av)
  with assms submitPassword_short [of vs ai av] show ?thesis by simp
next
  case (Click_runTests ai av)
  with assms runTests_short_password [of vs ai av] show ?thesis
    by (simp add: runTests_click_def runTests_password runTests_adminPassword)
next
  case Click_Continue
  with assms show ?thesis
    by (simp add: VerificationStep_continue_click_def nextStep_def verify_calls_def)
next
  case Timer_fires
  with assms show ?thesis by (simp add: nextStep_def verify_calls_def)
next
  case Modal_Skip
  with assms show ?thesis
    by (simp add: handleSkip_def skipToVerification_def verify_calls_def)
next
  case (Modal_Reset a b)
  with assms handleReset_frame [of a b "snd vs"] show ?thesis by auto
qed

lemma VerificationStep_run_blocked:
  assumes "length (admin_password (domainConfig (snd vs))) < 8"
    and "length (adminPassword (fst vs)) < 8"
    and "list_all short_input evs"
  shows "length (admin_password (domainConfig (snd (VerificationStep_run evs vs)))) < 8 \<and>
         verify_calls (snd (VerificationStep_run evs vs)) = verify_calls (snd vs) \<and>
         (verificationResults (snd (VerificationStep_run evs vs)) = verificationResults (snd vs) \<or>
          verificationResults (snd (VerificationStep_run evs vs)) = None) \<and>
         (needsPassword (fst vs) \<longrightarrow> needsPassword (fst (VerificationStep_run evs vs)))"
  using assms
proof (induction evs arbitrary: vs)
  case Nil
  then show ?case by simp
next
  case (Cons ev evs)
  from Cons.prems have ev: "short_input ev" and evs: "list_all short_input evs" by simp_all
  note step = VerificationStep_fire_blocked [OF Cons.prems(1) Cons.prems(2) ev]
  from step have 1: "length (admin_password (domainConfig (snd (VerificationStep_fire ev vs)))) < 8"
    and 2: "length (adminPassword (fst (VerificationStep_fire ev vs))) < 8" by simp_all
  from Cons.IH [OF 1 2 evs] step show ?case by auto
qed

lemma submitPassword_long:
  assumes "length (adminPassword (fst vs)) \<ge> 8"
  shows "admin_password (domainConfig (snd (submitPassword ai av vs))) = adminPassword (fst vs)"
    and "verify_calls (snd (submitPassword ai av vs)) =
         verify_calls (snd vs) @
           (if placeholder_config (domainConfig (snd (submitPassword ai av vs))) then []
            else [VerifyInstallation (domainConfig (snd (submitPassword ai av vs)))])"
proof -
  let ?vs1 = "((fst vs)\<lparr> passwordError := [], needsPassword := False \<rparr>,
     (snd vs)\<lparr> domainConfig :=
        (domainConfig (snd vs))\<lparr> admin_password := adminPassword (fst vs) \<rparr> \<rparr>)"
  have eq: "submitPassword ai av vs = runTests ai av ?vs1"
    using assms by (simp add: submitPassword_def Let_def)
  show pw: "admin_password (domainConfig (snd (submitPassword ai av vs))) = adminPassword (fst vs)"
    by (simp add: eq runTests_password)
  have "verify_calls (snd ?vs1) = verify_calls (snd vs)"
    by (simp add: verify_calls_def)
  with runTests_verify_calls [of ai av ?vs1] pw assms
  show "verify_calls (snd (submitPassword ai av vs)) =
         verify_calls (snd vs) @
           (if placeholder_config (domainConfig (snd (submitPassword ai av vs))) then []
            else [VerifyInstallation (domainConfig (snd (submitPassword ai av vs)))])"
    by (simp add: eq)
qed

text \<open>
  A session of a pre-existing domain without a password: \<^verbatim>\<open>runTests\<close> shows the prompt and
  sends no verification request. No password is supplied; the user clicks Continue, which
  the prompt does not disable, and the wizard is at Complete, with the prompt state still
  set, no verification request sent and no results.
\<close>

theorem prompt_does_not_block_counterexample:
  "length (admin_password (domainConfig prompted_store)) < 8 \<and>
   currentStep prompted_store = 6 \<and>
   needsPassword (fst (runTests (Inl Thrown) (Inr sample_run)
      (initial_VerificationView, prompted_store))) \<and>
   currentStep (snd (runTests (Inl Thrown) (Inr sample_run)
      (initial_VerificationView, prompted_store))) = 6 \<and>
   currentStep (snd (VerificationStep_fire Click_Continue
      (runTests (Inl Thrown) (Inr sample_run) (initial_VerificationView, prompted_store)))) = 7 \<and>
   needsPassword (fst (VerificationStep_fire Click_Continue
      (runTests (Inl Thrown) (Inr sample_run) (initial_VerificationView, prompted_store)))) \<and>
   length (admin_password (domainConfig (snd (VerificationStep_fire Click_Continue
      (runTests (Inl Thrown) (Inr sample_run)
         (initial_VerificationView, prompted_store)))))) < 8 \<and>
   verify_calls (snd (VerificationStep_fire Click_Continue
      (runTests (Inl Thrown) (Inr sample_run) (initial_VerificationView, prompted_store)))) = [] \<and>
   verificationResults (snd (VerificationStep_fire Click_Continue
      (runTests (Inl Thrown) (Inr sample_run) (initial_VerificationView, prompted_store)))) = None"
  by (simp add: prompted_store_def provisioned_status_def initial_store_def
      initial_domainConfig_def initial_VerificationView_def runTests_def
      checkAndPrepareConfig_def check_password_def isProvisioned_def placeholder_config_def
      VerificationStep_continue_click_def nextStep_def verify_calls_def is_verify_def
      error_message_def Let_def)

text \<open>
  Claim C5, amended. For every session whose configuration holds an administrator password
  shorter than 8 characters, \<^verbatim>\<open>runTests\<close> sends no verification request, leaves the results
  as they were, sets \<^verbatim>\<open>needsPassword\<close> and says that the password is required. Until a
  password of at least 8 characters is supplied, nothing that can happen on the
  Verification step (the mount hook, typing, submitting, Run Tests Again, Continue, the
  auto-advance timer, the actions of the existing-domain modal) sends a verification request or brings
  results, and \<^verbatim>\<open>needsPassword\<close> stays set. The prompt does not hold the wizard at the
  step: Continue is disabled only while tests run and otherwise calls \<^verbatim>\<open>nextStep\<close>. A
  submitted password of at least 8 characters is written into the configuration, and
  exactly one verification request goes out with that configuration unless it still has a
  placeholder value.
\<close>

theorem verification_requires_password:
  "(length (admin_password (domainConfig (snd vs))) < 8 \<longrightarrow>
      needsPassword (fst (runTests ai av vs)) \<and>
      verify_calls (snd (runTests ai av vs)) = verify_calls (snd vs) \<and>
      verificationResults (snd (runTests ai av vs)) = verificationResults (snd vs) \<and>
      passwordError (fst (runTests ai av vs)) =
        ''Administrator password is required for verification tests'') \<and>
   (length (admin_password (domainConfig (snd vs))) < 8 \<and>
    length (adminPassword (fst vs)) < 8 \<and> list_all short_input evs \<longrightarrow>
      length (admin_password (domainConfig (snd (VerificationStep_run evs vs)))) < 8 \<and>
      verify_calls (snd (VerificationStep_run evs vs)) = verify_calls (snd vs) \<and>
      (verificationResults (snd (VerificationStep_run evs vs)) = verificationResults (snd vs) \<or>
       verificationResults (snd (VerificationStep_run evs vs)) = None) \<and>
      (needsPassword (fst vs) \<longrightarrow> needsPassword (fst (VerificationStep_run evs vs)))) \<and>
   VerificationStep_fire Click_Continue vs =
     (if running (fst vs) then vs else (fst vs, nextStep (snd vs))) \<and>
   (length (adminPassword (fst vs)) \<ge> 8 \<longrightarrow>
      admin_password (domainConfig (snd (submitPassword ai av vs))) = adminPassword (fst vs) \<and>
      verify_calls (snd (submitPassword ai av vs)) =
        verify_calls (snd vs) @
          (if placeholder_config (domainConfig (snd (submitPassword ai av vs))) then []
           else [VerifyInstallation (domainConfig (snd (submitPassword ai av vs)))]))"
proof (intro conjI impI)
  assume a: "length (admin_password (domainConfig (snd vs))) < 8"
  show "needsPassword (fst (runTests ai av vs))"
    by (rule runTests_short_password(1) [OF a])
  show "verify_calls (snd (runTests ai av vs)) = verify_calls (snd vs)"
    by (rule runTests_short_password(2) [OF a])
  show "verificationResults (snd (runTests ai av vs)) = verificationResults (snd vs)"
    by (rule runTests_short_password(3) [OF a])
  show "passwordError (fst (runTests ai av vs)) =
        ''Administrator password is required for verification tests''"
    by (rule runTests_short_password(4) [OF a])
next
  assume a: "length (admin_password (domainConfig (snd vs))) < 8 \<and>
    length (adminPassword (fst vs)) < 8 \<and> list_all short_input evs"
  then have b: "length (admin_password (domainConfig (snd (VerificationStep_run evs vs)))) < 8 \<and>
         verify_calls (snd (VerificationStep_run evs vs)) = verify_calls (snd vs) \<and>
         (verificationResults (snd (VerificationStep_run evs vs)) = verificationResults (snd vs) \<or>
          verificationResults (snd (VerificationStep_run evs vs)) = None) \<and>
         (needsPassword (fst vs) \<longrightarrow> needsPassword (fst (VerificationStep_run evs vs)))"
    using VerificationStep_run_blocked [of vs evs] by simp
  from b show "length (admin_password (domainConfig (snd (VerificationStep_run evs vs)))) < 8"
    by simp
  from b show "verify_calls (snd (VerificationStep_run evs vs)) = verify_calls (snd vs)"
    by simp
  from b show "verificationResults (snd (VerificationStep_run evs vs)) =
      verificationResults (snd vs) \<or>
    verificationResults (snd (VerificationStep_run evs vs)) = None" by simp
  assume "needsPassword (fst vs)"
  with b show "needsPassword (fst (VerificationStep_run evs vs))" by simp
next
  show "VerificationStep_fire Click_Continue vs =
     (if running (fst vs) then vs else (fst vs, nextStep (snd vs)))"
    by (simp add: VerificationStep_continue_click_def)
next
  assume a: "length (adminPassword (fst vs)) \<ge> 8"
  show "admin_password (domainConfig (snd (submitPassword ai av vs))) = adminPassword (fst vs)"
    by (rule submitPassword_long(1) [OF a])
  show "verify_calls (snd (submitPassword ai av vs)) =
        verify_calls (snd vs) @
          (if placeholder_config (domainConfig (snd (submitPassword ai av vs))) then []
           else [VerifyInstallation (domainConfig (snd (submitPassword ai av vs)))])"
    by (rule submitPassword_long(2) [OF a])
qed

theorem verification_requires_password_witness:
  "length (admin_password (domainConfig prompted_store)) < 8 \<and>
   length (adminPassword (initial_VerificationView\<lparr> needsPassword := True \<rparr>)) < 8 \<and>
   needsPassword (initial_VerificationView\<lparr> needsPassword := True \<rparr>) \<and>
   list_all short_input blocked_events \<and>
   needsPassword (fst (runTests (Inl Thrown) (Inr sample_run)
      (initial_VerificationView\<lparr> needsPassword := True \<rparr>, prompted_store))) \<and>
   verify_calls (snd (runTests (Inl Thrown) (Inr sample_run)
      (initial_VerificationView\<lparr> needsPassword := True \<rparr>, prompted_store))) = [] \<and>
   needsPassword (fst (VerificationStep_run blocked_events
      (initial_VerificationView\<lparr> needsPassword := True \<rparr>, prompted_store))) \<and>
   verify_calls (snd (VerificationStep_run blocked_events
      (initial_VerificationView\<lparr> needsPassword := True \<rparr>, prompted_store))) = [] \<and>
   verificationResults (snd (VerificationStep_run blocked_events
      (initial_VerificationView\<lparr> needsPassword := True \<rparr>, prompted_store))) = None \<and>
   length (adminPassword (initial_VerificationView\<lparr> adminPassword := sample_password \<rparr>)) \<ge> 8 \<and>
   isProvisioned prompted_store \<and>
   domainConfig (snd (submitPassword (Inr sample_info) (Inr sample_run)
      (initial_VerificationView\<lparr> adminPassword := sample_password \<rparr>, prompted_store))) =
     introspected_config \<and>
   verify_calls (snd (submitPassword (Inr sample_info) (Inr sample_run)
      (initial_VerificationView\<lparr> adminPassword := sample_password \<rparr>, prompted_store))) =
     [VerifyInstallation introspected_config]"
proof -
  let ?blocked = "(initial_VerificationView\<lparr> needsPassword := True \<rparr>, prompted_store)"
  let ?typed = "(initial_VerificationView\<lparr> adminPassword := sample_password \<rparr>, prompted_store)"
  have short: "length (admin_password (domainConfig prompted_store)) < 8"
    by (simp add: prompted_store_def initial_store_def initial_domainConfig_def)
  have typed_short: "length (adminPassword (fst ?blocked)) < 8"
    by (simp add: initial_VerificationView_def)
  have prompt: "needsPassword (fst ?blocked)" by simp
  have evs: "list_all short_input blocked_events"
    by (simp add: blocked_events_def short_input_def)
  have empty: "verify_calls prompted_store = []" "verificationResults prompted_store = None"
    by (simp_all add: verify_calls_def prompted_store_def initial_store_def)
  have long: "length (adminPassword (fst ?typed)) \<ge> 8"
    by (simp add: sample_password_def)
  have prov: "isProvisioned prompted_store"
    by (simp add: prompted_store_def isProvisioned_def provisioned_status_def)
  have cfg: "domainConfig (snd (submitPassword (Inr sample_info) (Inr sample_run) ?typed)) =
      introspected_config"
    using apply_sample_info
    by (simp add: submitPassword_def runTests_domainConfig checkAndPrepareConfig_domainConfig
        prompted_store_def initial_store_def isProvisioned_def provisioned_status_def
        placeholder_config_def initial_domainConfig_def sample_password_def Let_def)
  have np: "\<not> placeholder_config introspected_config"
    by (simp add: placeholder_config_def introspected_config_def initial_domainConfig_def)
  show ?thesis
    using verification_requires_password [of ?blocked "Inl Thrown" "Inr sample_run" blocked_events]
      verification_requires_password [of ?typed "Inr sample_info" "Inr sample_run" "[]"]
      short typed_short prompt evs empty long prov cfg np
    by simp
qed

end
